theory Spec2Isabelle
  imports Main "HOL-Library.Word"
begin

section \<open>Python values\<close>

text \<open>
  The models of \<^verbatim>\<open>models.py\<close> are built from dynamically typed input: the keyword
  arguments of a constructor call, or the object a JSON body decodes to. The type
  \<open>pyval\<close> is that universe. Text (\<open>str\<close>) is the list of its code points, so \<open>length\<close>
  is Python's \<open>len\<close>; \<open>lit\<close> writes text as a literal. Bytes are a \<open>char list\<close>.
  Floating point numbers and \<open>Decimal\<close> are not part of the universe. The names of
  fields and keyword arguments, and the messages of exceptions, are \<open>string\<close>s.
\<close>

type_synonym pystr = "nat list"

abbreviation lit :: "string \<Rightarrow> pystr" where
  "lit t \<equiv> map of_char t"

datatype objectid = ObjectId (binary: "char list")

datatype pyval =
    PNone
  | PBool bool
  | PInt int
  | PStr pystr
  | PBytes "char list"
  | PObjectId objectid
  | PList "pyval list"
  | PDict "(pystr \<times> pyval) list"

text \<open>Python's truth value of an object, as \<^verbatim>\<open>not oid\<close> tests it.\<close>

fun truthy :: "pyval \<Rightarrow> bool" where
  "truthy PNone = False"
| "truthy (PBool b) = b"
| "truthy (PInt i) = (i \<noteq> 0)"
| "truthy (PStr s) = (s \<noteq> [])"
| "truthy (PBytes b) = (b \<noteq> [])"
| "truthy (PObjectId x) = True"
| "truthy (PList xs) = (xs \<noteq> [])"
| "truthy (PDict kvs) = (kvs \<noteq> [])"

text \<open>The exceptions the code and the libraries it calls raise.\<close>

datatype exn =
    ValueError string
  | TypeError
  | InvalidId
  | UnicodeDecodeError
  | MissingError
  | NoneIsNotAllowedError
  | StrError
  | IntegerError
  | AnyStrMinLengthError nat
  | UndefinedValueError string
  | NameError string

section \<open>Text and number conversions of the interpreter\<close>

text \<open>
  \<open>Py_ISSPACE\<close> is the ASCII white space of the C runtime (tab, line feed, vertical
  tab, form feed, carriage return, space).
\<close>

definition Py_ISSPACE :: "nat \<Rightarrow> bool" where
  "Py_ISSPACE c = (c \<in> {9, 10, 11, 12, 13, 32})"

text \<open>
  The two tables of the Unicode database that \<open>int()\<close> reads for a character that is
  not ASCII, as of Unicode 14.0: the white space, and the decimal digits, which come in
  runs of ten from each of the zeros listed.
\<close>

definition unicode_spaces :: "nat list" where
  "unicode_spaces =
     [133, 160, 5760, 8192, 8193, 8194, 8195, 8196, 8197, 8198, 8199, 8200, 8201, 8202,
      8232, 8233, 8239, 8287, 12288]"

definition decimal_zeros :: "nat list" where
  "decimal_zeros =
     [1632, 1776, 1984, 2406, 2534, 2662, 2790, 2918, 3046, 3174, 3302, 3430, 3558, 3664,
      3792, 3872, 4160, 4240, 6112, 6160, 6470, 6608, 6784, 6800, 6992, 7088, 7232, 7248,
      42528, 43216, 43264, 43472, 43504, 43600, 44016, 65296, 66720, 68912, 69734, 69872,
      69942, 70096, 70384, 70736, 70864, 71248, 71360, 71472, 71904, 72016, 72784, 73040,
      73120, 92768, 92864, 93008, 120782, 120792, 120802, 120812, 120822, 123200, 123632,
      125264, 130032]"

definition Py_UNICODE_TODECIMAL :: "nat \<Rightarrow> nat option" where
  "Py_UNICODE_TODECIMAL c =
     (case find (\<lambda>z. z \<le> c \<and> c < z + 10) decimal_zeros of
        Some z \<Rightarrow> Some (c - z)
      | None \<Rightarrow> None)"

text \<open>
  Before \<open>int()\<close> reads text, every character from 127 on is replaced: white space by
  a space, a decimal digit by its ASCII digit; any other character makes the text no
  literal (None).
\<close>

definition to_ascii :: "nat \<Rightarrow> nat option" where
  "to_ascii c =
     (if c < 127 then Some c
      else if c \<in> set unicode_spaces then Some 32
      else map_option (\<lambda>d. 48 + d) (Py_UNICODE_TODECIMAL c))"

definition is_digit :: "nat \<Rightarrow> bool" where
  "is_digit c = (48 \<le> c \<and> c \<le> 57)"

text \<open>
  The digits of a decimal literal: single underscores are allowed between digits, the
  flag says that the previous character was not a digit.
\<close>

fun digits_value :: "nat \<Rightarrow> bool \<Rightarrow> pystr \<Rightarrow> nat option" where
  "digits_value acc u [] = (if u then None else Some acc)"
| "digits_value acc u (c # cs) =
     (if is_digit c then digits_value (10 * acc + (c - 48)) False cs
      else if c = 95 \<and> \<not> u then digits_value acc True cs
      else None)"

text \<open>
  A literal in base 10 as \<open>int()\<close> reads it from ASCII: white space around it is
  dropped, one sign (\<open>+\<close> is 43, \<open>-\<close> is 45) may come first, and anything else raises
  ValueError (the value None here).
\<close>

definition int_literal :: "pystr \<Rightarrow> int option" where
  "int_literal s =
     (let t = rev (dropWhile Py_ISSPACE (rev (dropWhile Py_ISSPACE s))) in
      case t of
        [] \<Rightarrow> None
      | c # cs \<Rightarrow>
          if c = 45 then map_option (\<lambda>n. - int n) (digits_value 0 True cs)
          else if c = 43 then map_option int (digits_value 0 True cs)
          else map_option int (digits_value 0 True t))"

text \<open>
  \<open>int(v)\<close> for a value that is not already an integer; None when it raises TypeError
  or ValueError. Bytes are read as ASCII.
\<close>

fun py_int :: "pyval \<Rightarrow> int option" where
  "py_int (PInt i) = Some i"
| "py_int (PBool b) = Some (if b then 1 else 0)"
| "py_int (PStr s) = (case those (map to_ascii s) of Some t \<Rightarrow> int_literal t | None \<Rightarrow> None)"
| "py_int (PBytes b) = int_literal (lit b)"
| "py_int v = None"

definition digit_char :: "nat \<Rightarrow> nat" where
  "digit_char n = 48 + n"

fun str_nat :: "nat \<Rightarrow> pystr" where
  "str_nat n = (if n < 10 then [digit_char n] else str_nat (n div 10) @ [digit_char (n mod 10)])"

declare str_nat.simps [simp del]

definition str_int :: "int \<Rightarrow> pystr" where
  "str_int i = (if i < 0 then 45 # str_nat (nat (- i)) else str_nat (nat i))"

text \<open>
  \<open>str(i)\<close> for an integer: an interpreter with the limit on integer string conversion
  (3.11, and the security releases of 3.7 to 3.10) raises ValueError for more than 4300
  digits.
\<close>

definition py_str_int :: "int \<Rightarrow> exn + pystr" where
  "py_str_int i =
     (if 4300 < length (str_nat (nat \<bar>i\<bar>))
      then Inl (ValueError ''Exceeds the limit (4300 digits) for integer string conversion; use sys.set_int_max_str_digits() to increase the limit'')
      else Inr (str_int i))"

text \<open>
  \<open>bytes.decode()\<close>: strict UTF-8. A sequence of one to four bytes gives one code
  point; overlong forms, surrogates, code points beyond U+10FFFF, stray continuation
  bytes and cut sequences raise UnicodeDecodeError.
\<close>

definition continuation :: "nat \<Rightarrow> bool" where
  "continuation b = (128 \<le> b \<and> b \<le> 191)"

fun utf8_decode :: "nat list \<Rightarrow> pystr option" where
  "utf8_decode [] = Some []"
| "utf8_decode (a # bs) =
     (if a < 128 then map_option ((#) a) (utf8_decode bs)
      else if 194 \<le> a \<and> a \<le> 223 then
        (case bs of
           b # r \<Rightarrow>
             if continuation b
             then map_option ((#) ((a - 192) * 64 + (b - 128))) (utf8_decode r)
             else None
         | _ \<Rightarrow> None)
      else if 224 \<le> a \<and> a \<le> 239 then
        (case bs of
           b # c # r \<Rightarrow>
             if (if a = 224 then 160 else 128) \<le> b \<and> b \<le> (if a = 237 then 159 else 191)
                \<and> continuation c
             then map_option ((#) ((a - 224) * 4096 + (b - 128) * 64 + (c - 128))) (utf8_decode r)
             else None
         | _ \<Rightarrow> None)
      else if 240 \<le> a \<and> a \<le> 244 then
        (case bs of
           b # c # d # r \<Rightarrow>
             if (if a = 240 then 144 else 128) \<le> b \<and> b \<le> (if a = 244 then 143 else 191)
                \<and> continuation c \<and> continuation d
             then map_option
                    ((#) ((a - 240) * 262144 + (b - 128) * 4096 + (c - 128) * 64 + (d - 128)))
                    (utf8_decode r)
             else None
         | _ \<Rightarrow> None)
      else None)"

definition decode :: "char list \<Rightarrow> exn + pystr" where
  "decode b = (case utf8_decode (lit b) of Some t \<Rightarrow> Inr t | None \<Rightarrow> Inl UnicodeDecodeError)"


section \<open>The driver's ObjectId\<close>

definition hex_value :: "nat \<Rightarrow> nat option" where
  "hex_value n =
     (if 48 \<le> n \<and> n \<le> 57 then Some (n - 48)
      else if 97 \<le> n \<and> n \<le> 102 then Some (n - 87)
      else if 65 \<le> n \<and> n \<le> 70 then Some (n - 55)
      else None)"

text \<open>
  \<open>bytes.fromhex\<close>: two hexadecimal digits per byte; ASCII white space before a pair
  (and at the end) is skipped, white space inside a pair is an error.
\<close>

fun fromhex :: "pystr \<Rightarrow> char list option" where
  "fromhex [] = Some []"
| "fromhex (c # cs) =
     (if Py_ISSPACE c then fromhex cs
      else case cs of
        [] \<Rightarrow> None
      | d # rest \<Rightarrow>
          (case (hex_value c, hex_value d) of
            (Some h, Some l) \<Rightarrow> map_option ((#) (char_of (16 * h + l))) (fromhex rest)
          | _ \<Rightarrow> None))"

definition hex_digit :: "nat \<Rightarrow> nat" where
  "hex_digit n = lit ''0123456789abcdef'' ! n"

text \<open>\<open>binascii.hexlify\<close>, decoded: two lower-case digits per byte.\<close>

definition hexlify :: "char list \<Rightarrow> pystr" where
  "hexlify b = concat (map (\<lambda>c. [hex_digit (of_char c div 16), hex_digit (of_char c mod 16)]) b)"

text \<open>\<open>ObjectId.__str__\<close>.\<close>

definition str_oid :: "objectid \<Rightarrow> pystr" where
  "str_oid x = hexlify (binary x)"

text \<open>
  The process-wide state \<open>ObjectId.__generate\<close> reads: the clock in seconds, the five
  random bytes of the process and the counter of three bytes. The driver packs the clock
  as an unsigned number of 32 bits, which raises \<open>struct.error\<close> for a clock of
  \<open>2 ^ 32\<close> seconds or more (the year 2106): the state holds a clock for which it
  does not. A generated identifier is the big-endian clock (4 bytes), the random part
  (5 bytes) and the counter (3 bytes); the counter is advanced modulo \<open>2 ^ 24\<close>.
\<close>

record oid_source =
  clock :: "32 word"
  random5 :: "40 word"
  inc :: "24 word"

definition be_bytes :: "nat \<Rightarrow> nat \<Rightarrow> char list" where
  "be_bytes k n = map (\<lambda>i. char_of (n div 256 ^ i)) (rev [0..<k])"

definition generate :: "oid_source \<Rightarrow> objectid \<times> oid_source" where
  "generate s =
     (ObjectId (be_bytes 4 (unat (clock s)) @ be_bytes 5 (unat (random5 s))
                  @ be_bytes 3 (unat (inc s))),
      s\<lparr>inc := inc s + 1\<rparr>)"

text \<open>\<open>ObjectId.__validate\<close>: an identifier, or text of 24 characters that \<open>fromhex\<close> reads.\<close>

fun oid_validate :: "pyval \<Rightarrow> exn + objectid" where
  "oid_validate (PObjectId x) = Inr (ObjectId (binary x))"
| "oid_validate (PStr s) =
     (if length s = 24 then
        (case fromhex s of Some b \<Rightarrow> Inr (ObjectId b) | None \<Rightarrow> Inl InvalidId)
      else Inl InvalidId)"
| "oid_validate v = Inl TypeError"

text \<open>
  \<open>ObjectId.__init__\<close>: no argument (None) generates an identifier, 12 bytes are taken
  as they are, anything else goes through \<open>__validate\<close>.
\<close>

definition ObjectId_init :: "pyval \<Rightarrow> oid_source \<Rightarrow> (exn + objectid) \<times> oid_source" where
  "ObjectId_init oid s =
     (case oid of
        PNone \<Rightarrow> (Inr (fst (generate s)), snd (generate s))
      | PBytes b \<Rightarrow> if length b = 12 then (Inr (ObjectId b), s) else (oid_validate oid, s)
      | _ \<Rightarrow> (oid_validate oid, s))"

text \<open>
  \<open>ObjectId.is_valid\<close>: a falsy value is not valid; otherwise the value is valid when
  the constructor accepts it (InvalidId and TypeError are caught, and the constructor
  raises nothing else).
\<close>

definition is_valid :: "pyval \<Rightarrow> oid_source \<Rightarrow> bool" where
  "is_valid oid s =
     (if \<not> truthy oid then False
      else case fst (ObjectId_init oid s) of Inr x \<Rightarrow> True | Inl e \<Rightarrow> False)"

section \<open>The identifier adapter of models.py\<close>

text \<open>
  \<^verbatim>\<open>
  class PyObjectId(ObjectId):
      @classmethod
      def validate(cls, v):
          if not ObjectId.is_valid(v):
              raise ValueError("Invalid objectid")
          return ObjectId(v)
  \<close>
\<close>

definition validate :: "pyval \<Rightarrow> oid_source \<Rightarrow> (exn + objectid) \<times> oid_source" where
  "validate v s =
     (if \<not> is_valid v s then (Inl (ValueError ''Invalid objectid''), s)
      else ObjectId_init v s)"


section \<open>The validation library\<close>

text \<open>
  The classes of \<^verbatim>\<open>models.py\<close> declare fields; the validation library turns each
  declaration into a field with validators and runs them over the input when an
  instance is constructed. A validated value is an identifier, text, an integer or
  None.
\<close>

datatype fval = VNone | VInt int | VStr pystr | VObjectId objectid

text \<open>
  The validator of a \<open>str\<close> field that is not strict: text is kept, numbers are
  rendered by \<open>str\<close>, bytes are decoded, anything else is refused.
\<close>

definition str_validator :: "pyval \<Rightarrow> exn + pystr" where
  "str_validator v =
     (case v of
        PStr t \<Rightarrow> Inr t
      | PInt i \<Rightarrow> py_str_int i
      | PBool b \<Rightarrow> Inr (if b then lit ''True'' else lit ''False'')
      | PBytes b \<Rightarrow> decode b
      | _ \<Rightarrow> Inl StrError)"

definition constr_length_validator :: "nat option \<Rightarrow> pystr \<Rightarrow> exn + pystr" where
  "constr_length_validator min_length t =
     (case min_length of
        Some m \<Rightarrow> if length t < m then Inl (AnyStrMinLengthError m) else Inr t
      | None \<Rightarrow> Inr t)"

text \<open>
  The validator of an \<open>int\<close> field that is not strict: an integer that is not a
  boolean is kept; text or bytes of more than 4300 characters are refused; anything else
  goes through \<open>int()\<close>.
\<close>

definition int_validator :: "pyval \<Rightarrow> exn + int" where
  "int_validator v =
     (case v of
        PInt i \<Rightarrow> Inr i
      | _ \<Rightarrow>
          if (case v of PStr t \<Rightarrow> 4300 < length t | PBytes b \<Rightarrow> 4300 < length b | _ \<Rightarrow> False)
          then Inl IntegerError
          else (case py_int v of Some i \<Rightarrow> Inr i | None \<Rightarrow> Inl IntegerError))"

text \<open>The message of a validation error, where the library fixes its text.\<close>

fun msg :: "exn \<Rightarrow> string option" where
  "msg (ValueError m) = Some m"
| "msg MissingError = Some ''field required''"
| "msg NoneIsNotAllowedError = Some ''none is not an allowed value''"
| "msg StrError = Some ''str type expected''"
| "msg IntegerError = Some ''value is not a valid integer''"
| "msg (AnyStrMinLengthError m) =
     Some (''ensure this value has at least '' @ map char_of (str_nat m) @ '' characters'')"
| "msg e = None"

datatype ftype = T_PyObjectId | T_str "nat option" | T_int

datatype fdefault = Required | Default_None | Default_factory_PyObjectId

record field =
  fname :: string
  falias :: string
  ftype :: ftype
  fdefault :: fdefault
  allow_none :: bool

text \<open>
  The validators of a field by its type: \<open>PyObjectId.__get_validators__\<close> yields
  \<open>validate\<close>; a \<open>str\<close> field with \<open>min_length\<close> runs the length check after the
  \<open>str\<close> validator. An exception a validator raises becomes the field's error.
\<close>

definition apply_validators :: "ftype \<Rightarrow> pyval \<Rightarrow> oid_source \<Rightarrow> (exn + fval) \<times> oid_source" where
  "apply_validators t v s =
     (case t of
        T_PyObjectId \<Rightarrow> (map_sum id VObjectId (fst (validate v s)), snd (validate v s))
      | T_str m \<Rightarrow>
          ((case str_validator v of
              Inl e \<Rightarrow> Inl e
            | Inr x \<Rightarrow> map_sum id VStr (constr_length_validator m x)), s)
      | T_int \<Rightarrow> (map_sum id VInt (int_validator v), s))"

text \<open>A supplied None is accepted only by a field that allows it, and never validated.\<close>

definition field_validate :: "field \<Rightarrow> pyval \<Rightarrow> oid_source \<Rightarrow> (exn + fval) \<times> oid_source" where
  "field_validate f v s =
     (if v = PNone then
        (if allow_none f then (Inr VNone, s) else (Inl NoneIsNotAllowedError, s))
      else apply_validators (ftype f) v s)"

text \<open>
  One round of the loop of \<open>validate_model\<close>: the input is read under the field's
  alias; a missing required field is an error, a missing optional one takes its default
  (the factory \<open>PyObjectId()\<close> generates an identifier) without validation. An error is
  located by the alias, a value is stored under the field's name.
\<close>

definition validate_field ::
  "field \<Rightarrow> (string \<rightharpoonup> pyval) \<Rightarrow> oid_source \<Rightarrow> ((string \<times> exn) + (string \<times> fval)) \<times> oid_source" where
  "validate_field f input_data s =
     (case input_data (falias f) of
        None \<Rightarrow>
          (case fdefault f of
             Required \<Rightarrow> (Inl (falias f, MissingError), s)
           | Default_None \<Rightarrow> (Inr (fname f, VNone), s)
           | Default_factory_PyObjectId \<Rightarrow>
               (case fst (ObjectId_init PNone s) of
                  Inl e \<Rightarrow> (Inl (falias f, e), snd (ObjectId_init PNone s))
                | Inr x \<Rightarrow> (Inr (fname f, VObjectId x), snd (ObjectId_init PNone s))))
      | Some v \<Rightarrow>
          (case fst (field_validate f v s) of
             Inl e \<Rightarrow> (Inl (falias f, e), snd (field_validate f v s))
           | Inr x \<Rightarrow> (Inr (fname f, x), snd (field_validate f v s))))"

fun validate_fields ::
  "field list \<Rightarrow> (string \<rightharpoonup> pyval) \<Rightarrow> oid_source \<Rightarrow> ((string \<times> exn) + (string \<times> fval)) list \<times> oid_source" where
  "validate_fields [] input_data s = ([], s)"
| "validate_fields (f # fs) input_data s =
     (fst (validate_field f input_data s)
        # fst (validate_fields fs input_data (snd (validate_field f input_data s))),
      snd (validate_fields fs input_data (snd (validate_field f input_data s))))"

fun lefts :: "('a + 'b) list \<Rightarrow> 'a list" where
  "lefts [] = []"
| "lefts (Inl e # rs) = e # lefts rs"
| "lefts (Inr x # rs) = lefts rs"

fun rights :: "('a + 'b) list \<Rightarrow> 'b list" where
  "rights [] = []"
| "rights (Inl e # rs) = rights rs"
| "rights (Inr x # rs) = x # rights rs"

text \<open>
  \<open>validate_model\<close> and \<open>BaseModel.__init__\<close>: \<open>input_data\<close> are the keyword
  arguments as \<open>__init__\<close> receives them. The fields are validated in the order of their
  declaration; with any error the constructor raises ValidationError with the list of
  errors, otherwise the instance holds the values. Keys of the input that are no alias
  of a field are ignored.
\<close>

definition validate_model ::
  "field list \<Rightarrow> (string \<rightharpoonup> pyval) \<Rightarrow> oid_source \<Rightarrow> ((string \<times> exn) list + (string \<times> fval) list) \<times> oid_source" where
  "validate_model fs input_data s =
     (if lefts (fst (validate_fields fs input_data s)) = []
      then Inr (rights (fst (validate_fields fs input_data s)))
      else Inl (lefts (fst (validate_fields fs input_data s))),
      snd (validate_fields fs input_data s))"

text \<open>
  A subclass has the fields of its base class, then its own; a field declared again
  replaces the inherited one in place.
\<close>

definition add_field :: "field list \<Rightarrow> field \<Rightarrow> field list" where
  "add_field fs f =
     (if fname f \<in> set (map fname fs)
      then map (\<lambda>g. if fname g = fname f then f else g) fs
      else fs @ [f])"

definition inherit :: "field list \<Rightarrow> field list \<Rightarrow> field list" where
  "inherit base own = foldl add_field base own"

text \<open>
  Assignment to an attribute of an instance, \<open>inst.name = v\<close>, for a class with the
  library's default settings (no \<open>validate_assignment\<close>, mutation allowed, no extra
  fields, no private attributes): the name of a field, and the seven names the library
  lets through, are stored in the instance as given, without validation; any other
  name raises ValueError. \<open>cls\<close> is the name of the class, for the message.
\<close>

definition DUNDER_ATTRIBUTES :: "string list" where
  "DUNDER_ATTRIBUTES =
     [''__annotations__'', ''__classcell__'', ''__doc__'', ''__module__'',
      ''__orig_bases__'', ''__orig_class__'', ''__qualname__'']"

definition dict_set :: "string \<Rightarrow> 'v \<Rightarrow> (string \<times> 'v) list \<Rightarrow> (string \<times> 'v) list" where
  "dict_set k v kvs =
     (if k \<in> set (map fst kvs)
      then map (\<lambda>(n, x). if n = k then (n, v) else (n, x)) kvs
      else kvs @ [(k, v)])"

definition setattr ::
  "string \<Rightarrow> field list \<Rightarrow> (string \<times> fval) list \<Rightarrow> string \<Rightarrow> fval \<Rightarrow> exn + (string \<times> fval) list" where
  "setattr cls fs inst name v =
     (if name \<in> set DUNDER_ATTRIBUTES \<or> name \<in> set (map fname fs)
      then Inr (dict_set name v inst)
      else Inl (ValueError ([CHR 0x22] @ cls @ [CHR 0x22] @ '' object has no field ''
                              @ [CHR 0x22] @ name @ [CHR 0x22])))"

subsection \<open>JSON\<close>

datatype json =
    JNull
  | JBool bool
  | JInt int
  | JString pystr
  | JArray "json list"
  | JObject "(pystr \<times> json) list"

text \<open>
  \<open>.json(by_alias=...)\<close> (\<open>by_alias\<close> is False when not given): the values in the
  order of the fields, each under its alias or its name, encoded with the
  \<open>json_encoders\<close> of the class. \<open>json\<close> is the document as a tree; its text is not
  modelled.
\<close>

definition alias_of :: "field list \<Rightarrow> string \<Rightarrow> string" where
  "alias_of fs n = (case find (\<lambda>f. fname f = n) fs of Some f \<Rightarrow> falias f | None \<Rightarrow> n)"

definition model_dict :: "field list \<Rightarrow> bool \<Rightarrow> (string \<times> fval) list \<Rightarrow> (string \<times> fval) list" where
  "model_dict fs by_alias vals = map (\<lambda>(n, v). (if by_alias then alias_of fs n else n, v)) vals"

text \<open>
  \<open>json.loads\<close>, from the tree. The decoder reads each integer of the text with
  \<open>int()\<close>, which raises ValueError for more than 4300 digits: \<open>numbers\<close> are the
  integers of a document in the order of its text, \<open>loads_error\<close> is the exception
  the first integer that is too long raises.
\<close>

primrec loads :: "json \<Rightarrow> pyval" where
  "loads JNull = PNone"
| "loads (JBool b) = PBool b"
| "loads (JInt i) = PInt i"
| "loads (JString t) = PStr t"
| "loads (JArray js) = PList (map loads js)"
| "loads (JObject kvs) = PDict (map (map_prod id loads) kvs)"

primrec numbers :: "json \<Rightarrow> int list" where
  "numbers JNull = []"
| "numbers (JBool b) = []"
| "numbers (JInt i) = [i]"
| "numbers (JString t) = []"
| "numbers (JArray js) = concat (map numbers js)"
| "numbers (JObject kvs) = concat (map snd (map (map_prod id numbers) kvs))"

definition loads_error :: "json \<Rightarrow> exn option" where
  "loads_error j =
     (case find (\<lambda>i. 4300 < length (str_nat (nat \<bar>i\<bar>))) (numbers j) of
        Some i \<Rightarrow>
          Some (ValueError (''Exceeds the limit (4300 digits) for integer string conversion: value has ''
                  @ map char_of (str_nat (length (str_nat (nat \<bar>i\<bar>))))
                  @ '' digits; use sys.set_int_max_str_digits() to increase the limit''))
      | None \<Rightarrow> None)"

text \<open>
  \<open>dict(obj)\<close> for an object that is no dict, None when it raises TypeError or
  ValueError: the object must be a sequence whose elements each give two items, a key
  that can be hashed and a value. Text of two characters gives its characters, two
  bytes give their numbers, a dict of two keys gives its keys (in the order of their
  first occurrence).
\<close>

definition dict_keys :: "(pystr \<times> pyval) list \<Rightarrow> pystr list" where
  "dict_keys kvs = rev (remdups (rev (map fst kvs)))"

fun update_element :: "pyval \<Rightarrow> (pyval \<times> pyval) option" where
  "update_element (PList xs) = (case xs of [k, v] \<Rightarrow> Some (k, v) | _ \<Rightarrow> None)"
| "update_element (PStr t) = (case t of [a, b] \<Rightarrow> Some (PStr [a], PStr [b]) | _ \<Rightarrow> None)"
| "update_element (PBytes b) =
     (case b of [x, y] \<Rightarrow> Some (PInt (of_char x), PInt (of_char y)) | _ \<Rightarrow> None)"
| "update_element (PDict kvs) =
     (case dict_keys kvs of [k, l] \<Rightarrow> Some (PStr k, PStr l) | _ \<Rightarrow> None)"
| "update_element v = None"

fun hashable :: "pyval \<Rightarrow> bool" where
  "hashable (PList xs) = False"
| "hashable (PDict kvs) = False"
| "hashable v = True"

fun dict_of :: "pyval \<Rightarrow> (pyval \<times> pyval) list option" where
  "dict_of (PList xs) =
     those (map (\<lambda>x. case update_element x of
                        Some (k, v) \<Rightarrow> if hashable k then Some (k, v) else None
                      | None \<Rightarrow> None) xs)"
| "dict_of (PStr t) = (if t = [] then Some [] else None)"
| "dict_of (PBytes b) = (if b = [] then Some [] else None)"
| "dict_of v = None"

text \<open>
  The keyword arguments a dict gives in \<open>cls(**obj)\<close>: the last of two equal keys
  wins. The call raises TypeError when a key is no text, and when a key is the name of
  the first parameter of \<open>__init__\<close>.
\<close>

definition kwargs :: "(pyval \<times> pyval) list \<Rightarrow> (string \<rightharpoonup> pyval)" where
  "kwargs kvs = (\<lambda>a. map_of (rev kvs) (PStr (lit a)))"

definition keyword :: "pyval \<Rightarrow> bool" where
  "keyword k = (case k of PStr t \<Rightarrow> t \<noteq> lit ''__pydantic_self__'' | _ \<Rightarrow> False)"

text \<open>
  \<open>parse_obj\<close>: an object that is no dict goes through \<open>dict(obj)\<close>, and what that
  raises becomes a validation error at \<open>__root__\<close> holding a TypeError; then the class
  is called with the dict as keyword arguments. The result is an exception of the call
  (\<open>Inl\<close>) or what the constructor gives. \<open>parse_json\<close> is \<open>parse_raw\<close> of a
  document: an exception of the decoder becomes a validation error at \<open>__root__\<close>.
\<close>

definition parse_obj ::
  "field list \<Rightarrow> pyval \<Rightarrow> oid_source \<Rightarrow> (exn + ((string \<times> exn) list + (string \<times> fval) list)) \<times> oid_source" where
  "parse_obj fs obj s =
     (case (case obj of
              PDict kvs \<Rightarrow> Some (map (\<lambda>(k, v). (PStr k, v)) kvs)
            | _ \<Rightarrow> dict_of obj) of
        None \<Rightarrow> (Inr (Inl [(''__root__'', TypeError)]), s)
      | Some kvs \<Rightarrow>
          if list_all (\<lambda>(k, v). keyword k) kvs
          then (Inr (fst (validate_model fs (kwargs kvs) s)), snd (validate_model fs (kwargs kvs) s))
          else (Inl TypeError, s))"

definition parse_json ::
  "field list \<Rightarrow> json \<Rightarrow> oid_source \<Rightarrow> (exn + ((string \<times> exn) list + (string \<times> fval) list)) \<times> oid_source" where
  "parse_json fs j s =
     (case loads_error j of
        Some e \<Rightarrow> (Inr (Inl [(''__root__'', e)]), s)
      | None \<Rightarrow> parse_obj fs (loads j) s)"


section \<open>The models of models.py\<close>

text \<open>
  \<^verbatim>\<open>
  class MongoBaseModel(BaseModel):
      id: PyObjectId = Field(default_factory=PyObjectId, alias="_id")
      class Config:
          json_encoders = {ObjectId: str}
  \<close>
\<close>

definition MongoBaseModel_fields :: "field list" where
  "MongoBaseModel_fields =
     [\<lparr>fname = ''id'', falias = ''_id'', ftype = T_PyObjectId,
       fdefault = Default_factory_PyObjectId, allow_none = False\<rparr>]"

text \<open>
  \<^verbatim>\<open>
  class CarBase(MongoBaseModel):
      brand: str = Field(..., min_length=3)
      make: str = Field(..., min_length=3)
      year: int = Field(...)
      price: int = Field(...)
      km: int = Field(...)
      cm3: int = Field(...)
  \<close>
\<close>

definition CarBase_fields :: "field list" where
  "CarBase_fields = inherit MongoBaseModel_fields
     [\<lparr>fname = ''brand'', falias = ''brand'', ftype = T_str (Some 3),
       fdefault = Required, allow_none = False\<rparr>,
      \<lparr>fname = ''make'', falias = ''make'', ftype = T_str (Some 3),
       fdefault = Required, allow_none = False\<rparr>,
      \<lparr>fname = ''year'', falias = ''year'', ftype = T_int,
       fdefault = Required, allow_none = False\<rparr>,
      \<lparr>fname = ''price'', falias = ''price'', ftype = T_int,
       fdefault = Required, allow_none = False\<rparr>,
      \<lparr>fname = ''km'', falias = ''km'', ftype = T_int,
       fdefault = Required, allow_none = False\<rparr>,
      \<lparr>fname = ''cm3'', falias = ''cm3'', ftype = T_int,
       fdefault = Required, allow_none = False\<rparr>]"


definition CarDB_fields :: "field list" where
  "CarDB_fields = inherit CarBase_fields []"


definition CarBase ::
  "(string \<rightharpoonup> pyval) \<Rightarrow> oid_source \<Rightarrow> ((string \<times> exn) list + (string \<times> fval) list) \<times> oid_source" where
  "CarBase input_data s = validate_model CarBase_fields input_data s"


definition CarDB ::
  "(string \<rightharpoonup> pyval) \<Rightarrow> oid_source \<Rightarrow> ((string \<times> exn) list + (string \<times> fval) list) \<times> oid_source" where
  "CarDB input_data s = validate_model CarDB_fields input_data s"

text \<open>
  Rendering an instance to JSON with \<open>json_encoders = {ObjectId: str}\<close>: an identifier
  is encoded by \<open>str\<close>, the other values have their own JSON form. The encoder writes
  an integer with \<open>repr\<close>, which raises ValueError for more than 4300 digits.
\<close>

fun json_encoder :: "fval \<Rightarrow> json" where
  "json_encoder VNone = JNull"
| "json_encoder (VInt i) = JInt i"
| "json_encoder (VStr t) = JString t"
| "json_encoder (VObjectId x) = JString (str_oid x)"

fun writable :: "fval \<Rightarrow> bool" where
  "writable (VInt i) = (length (str_nat (nat \<bar>i\<bar>)) \<le> 4300)"
| "writable v = True"

definition to_json :: "field list \<Rightarrow> bool \<Rightarrow> (string \<times> fval) list \<Rightarrow> exn + json" where
  "to_json fs by_alias vals =
     (if list_all (\<lambda>(k, v). writable v) vals
      then Inr (JObject (map (\<lambda>(k, v). (lit k, json_encoder v)) (model_dict fs by_alias vals)))
      else Inl (ValueError ''Exceeds the limit (4300 digits) for integer string conversion; use sys.set_int_max_str_digits() to increase the limit''))"


section \<open>main.py\<close>

text \<open>
  \<open>config(option, cast=str)\<close> of the configuration library: the process environment
  is searched first, then the settings file (the repository); an option found in
  neither, with no default given, raises UndefinedValueError.
\<close>

definition config :: "(string \<rightharpoonup> string) \<Rightarrow> (string \<rightharpoonup> string) \<Rightarrow> string \<Rightarrow> exn + string" where
  "config environ repository opt =
     (case environ opt of
        Some v \<Rightarrow> Inr v
      | None \<Rightarrow>
          (case repository opt of
             Some v \<Rightarrow> Inr v
           | None \<Rightarrow> Inl (UndefinedValueError opt)))"

text \<open>
  The module is a sequence of statements over its global names. A name is bound to a
  reference into a heap of objects, so that binding a name again and changing an object
  are different things. The application holds its middleware with the keyword
  arguments given to \<open>add_middleware\<close> (\<open>allow_origins\<close> is a reference to the list
  object that was passed), its event handlers and its mounted routers.
\<close>

datatype pyobj = OStr string | OList "string list"

record middleware_options =
  allow_origins :: nat
  allow_credentials :: bool
  allow_methods :: "string list"
  allow_headers :: "string list"

record fastapi =
  user_middleware :: "middleware_options list"
  event_handlers :: "(string \<times> string) list"
  routers :: "(string \<times> string \<times> string list) list"

record module_state =
  heap :: "pyobj list"
  globals :: "string \<rightharpoonup> nat"
  app :: "fastapi option"

definition module_start :: module_state where
  "module_start = \<lparr>heap = [], globals = Map.empty, app = None\<rparr>"

text \<open>\<open>name = <new object>\<close>: the object is allocated and the name bound to it.\<close>

definition assign :: "string \<Rightarrow> pyobj \<Rightarrow> module_state \<Rightarrow> module_state" where
  "assign name obj st =
     st\<lparr>heap := heap st @ [obj], globals := (globals st)(name \<mapsto> length (heap st))\<rparr>"

definition deref :: "module_state \<Rightarrow> nat \<Rightarrow> pyobj option" where
  "deref st r = (if r < length (heap st) then Some (heap st ! r) else None)"

definition FastAPI :: "module_state \<Rightarrow> module_state" where
  "FastAPI st = st\<lparr>app := Some \<lparr>user_middleware = [], event_handlers = [], routers = []\<rparr>\<rparr>"

text \<open>
  \<open>app.add_middleware(CORSMiddleware, allow_origins=origins, ...)\<close>: the name is
  evaluated to the object it is bound to at the call, and the middleware is put first.
\<close>

definition add_middleware ::
  "string \<Rightarrow> bool \<Rightarrow> string list \<Rightarrow> string list \<Rightarrow> module_state \<Rightarrow> exn + module_state" where
  "add_middleware origins_name credentials methods headers st =
     (case app st of
        None \<Rightarrow> Inl (NameError ''app'')
      | Some a \<Rightarrow>
          (case globals st origins_name of
             None \<Rightarrow> Inl (NameError origins_name)
           | Some r \<Rightarrow>
               Inr (st\<lparr>app := Some (a\<lparr>user_middleware :=
                 \<lparr>allow_origins = r, allow_credentials = credentials,
                  allow_methods = methods, allow_headers = headers\<rparr> # user_middleware a\<rparr>)\<rparr>)))"

definition on_event :: "string \<Rightarrow> string \<Rightarrow> module_state \<Rightarrow> exn + module_state" where
  "on_event event handler st =
     (case app st of
        None \<Rightarrow> Inl (NameError ''app'')
      | Some a \<Rightarrow> Inr (st\<lparr>app := Some (a\<lparr>event_handlers := event_handlers a @ [(event, handler)]\<rparr>)\<rparr>))"

definition include_router :: "string \<Rightarrow> string \<Rightarrow> string list \<Rightarrow> module_state \<Rightarrow> exn + module_state" where
  "include_router router prefix tags st =
     (case app st of
        None \<Rightarrow> Inl (NameError ''app'')
      | Some a \<Rightarrow> Inr (st\<lparr>app := Some (a\<lparr>routers := routers a @ [(router, prefix, tags)]\<rparr>)\<rparr>))"

text \<open>
  Running statements in sequence: the first exception ends the module, and the result
  keeps the state reached when it was raised.
\<close>

fun run :: "(module_state \<Rightarrow> exn + module_state) list \<Rightarrow> module_state \<Rightarrow> (exn \<times> module_state) + module_state" where
  "run [] st = Inr st"
| "run (c # cs) st = (case c st of Inl e \<Rightarrow> Inl (e, st) | Inr st' \<Rightarrow> run cs st')"

text \<open>
  \<open>NAME = config('NAME', cast=str)\<close>, for lines 12 and 13.
\<close>

definition assign_config ::
  "(string \<rightharpoonup> string) \<Rightarrow> (string \<rightharpoonup> string) \<Rightarrow> string \<Rightarrow> module_state \<Rightarrow> exn + module_state" where
  "assign_config environ repository name st =
     (case config environ repository name of
        Inl e \<Rightarrow> Inl e
      | Inr v \<Rightarrow> Inr (assign name (OStr v) st))"

text \<open>
  Lines 12 to 34 of the module: the two configuration values, the first \<open>origins\<close>
  list, the application with its CORS middleware, the two event handlers and the
  router of the cars.
\<close>

definition main_statements ::
  "(string \<rightharpoonup> string) \<Rightarrow> (string \<rightharpoonup> string) \<Rightarrow> (module_state \<Rightarrow> exn + module_state) list" where
  "main_statements environ repository =
     [assign_config environ repository ''DB_URL'',
      assign_config environ repository ''DB_NAME'',
      \<lambda>st. Inr (assign ''origins'' (OList [''*'']) st),
      \<lambda>st. Inr (FastAPI st),
      add_middleware ''origins'' True [''*''] [''*''],
      on_event ''startup'' ''startup_db_client'',
      on_event ''shutdown'' ''shutdown_db_client'',
      include_router ''cars_router'' ''/cars'' [''cars'']]"

text \<open>Lines 36 to 41: the name \<open>origins\<close> is bound to a new list.\<close>

definition reassign_origins :: "module_state \<Rightarrow> exn + module_state" where
  "reassign_origins st =
     Inr (assign ''origins''
       (OList [''http://localhost'', ''http://localhost:8080'',
               ''http://localhost:3000'', ''http://localhost:8000'']) st)"

definition main_module ::
  "(string \<rightharpoonup> string) \<Rightarrow> (string \<rightharpoonup> string) \<Rightarrow> (exn \<times> module_state) + module_state" where
  "main_module environ repository =
     run (main_statements environ repository @ [reassign_origins]) module_start"

text \<open>
  The policy the CORS middleware works with once the application serves: its options
  with the list object of \<open>allow_origins\<close> read from the heap. Every origin is allowed
  when the list holds \<open>*\<close>.
\<close>

record cors_policy =
  policy_origins :: "string list"
  policy_credentials :: bool
  policy_methods :: "string list"
  policy_headers :: "string list"

definition cors_policies :: "module_state \<Rightarrow> cors_policy option list" where
  "cors_policies st =
     (case app st of
        None \<Rightarrow> []
      | Some a \<Rightarrow>
          map (\<lambda>m. case deref st (allow_origins m) of
                 Some (OList os) \<Rightarrow>
                   Some \<lparr>policy_origins = os, policy_credentials = allow_credentials m,
                         policy_methods = allow_methods m, policy_headers = allow_headers m\<rparr>
               | _ \<Rightarrow> None)
            (user_middleware a))"

definition allow_all_origins :: "cors_policy \<Rightarrow> bool" where
  "allow_all_origins p = (''*'' \<in> set (policy_origins p))"

text \<open>
  The state the module has reached after line 34 when both configuration values were
  found: the three objects allocated so far, the names bound to them, and the
  application with its middleware, handlers and router.
\<close>

definition bootstrapped :: "string \<Rightarrow> string \<Rightarrow> module_state" where
  "bootstrapped url name =
     \<lparr>heap = [OStr url, OStr name, OList [''*'']],
      globals = [''DB_URL'' \<mapsto> 0, ''DB_NAME'' \<mapsto> 1, ''origins'' \<mapsto> 2],
      app = Some \<lparr>user_middleware =
                    [\<lparr>allow_origins = 2, allow_credentials = True,
                      allow_methods = [''*''], allow_headers = [''*'']\<rparr>],
                  event_handlers = [(''startup'', ''startup_db_client''), (''shutdown'', ''shutdown_db_client'')],
                  routers = [(''cars_router'', ''/cars'', [''cars''])]\<rparr>\<rparr>"


section \<open>Properties of the identifier adapter\<close>


lemma ObjectId_init_state: "v \<noteq> PNone \<Longrightarrow> snd (ObjectId_init v s) = s"
  by (cases v) (simp_all add: ObjectId_init_def)

lemma ObjectId_init_value: "v \<noteq> PNone \<Longrightarrow> fst (ObjectId_init v s) = fst (ObjectId_init v s')"
  by (cases v) (simp_all add: ObjectId_init_def)

lemma is_valid_iff:
  "is_valid v s =
     (case v of
        PBytes b \<Rightarrow> length b = 12
      | PObjectId x \<Rightarrow> True
      | PStr t \<Rightarrow> length t = 24 \<and> fromhex t \<noteq> None
      | _ \<Rightarrow> False)"
  by (cases v) (auto simp add: is_valid_def ObjectId_init_def split: option.splits)

lemma is_valid_not_None: "is_valid v s \<Longrightarrow> v \<noteq> PNone"
  by (auto simp add: is_valid_def)

lemma validate_eq:
  "validate v s =
     (if is_valid v s then (fst (ObjectId_init v s), s)
      else (Inl (ValueError ''Invalid objectid''), s))"
  using ObjectId_init_state [of v s] is_valid_not_None [of v s]
  by (auto simp add: validate_def prod_eq_iff)

lemma is_valid_init: "is_valid v s \<Longrightarrow> \<exists>x. fst (ObjectId_init v s) = Inr x"
  by (auto simp add: is_valid_def split: sum.splits if_splits)

text \<open>
  Claim C3. For every value \<open>v\<close>, \<open>PyObjectId.validate\<close> returns the identifier that the
  driver's constructor builds from \<open>v\<close> when \<open>v\<close> is valid, raises ValueError with
  exactly the message "Invalid objectid" when \<open>v\<close> is not valid, and fails if and only
  if \<open>v\<close> is not valid. The state of the identifier generator is left as it was.
\<close>

theorem validate_returns_or_raises:
  "(is_valid v s \<longrightarrow> (\<exists>x. validate v s = (Inr x, s) \<and> fst (ObjectId_init v s) = Inr x))
   \<and> (\<not> is_valid v s \<longrightarrow> validate v s = (Inl (ValueError ''Invalid objectid''), s))
   \<and> (isl (fst (validate v s)) \<longleftrightarrow> \<not> is_valid v s)"
  using is_valid_init [of v s] by (auto simp add: validate_eq)



lemma hex_value_not_space: "hex_value c = Some n \<Longrightarrow> \<not> Py_ISSPACE c"
  by (auto simp add: hex_value_def Py_ISSPACE_def Let_def split: if_splits)

lemma hex_value_less: "hex_value c = Some n \<Longrightarrow> n < 16"
  by (auto simp add: hex_value_def Let_def split: if_splits)



lemma fromhex_digits:
  "list_all (\<lambda>c. hex_value c \<noteq> None) t \<Longrightarrow> even (length t) \<Longrightarrow>
     \<exists>b. fromhex t = Some b \<and> 2 * length b = length t"
proof (induction t rule: fromhex.induct)
  case 1
  show ?case by simp
next
  case (2 c cs)
  from "2.prems" obtain h where h: "hex_value c = Some h" by auto
  from "2.prems" obtain d rest where cs: "cs = d # rest" by (cases cs) auto
  from "2.prems" cs obtain l where l: "hex_value d = Some l" by auto
  have sp: "\<not> Py_ISSPACE c" using h by (rule hex_value_not_space)
  from "2.prems" cs have "list_all (\<lambda>c. hex_value c \<noteq> None) rest" "even (length rest)" by auto
  with "2.IH"(2) [OF sp cs] h l
  obtain b where "fromhex rest = Some b" "2 * length b = length rest" by auto
  with h l sp cs show ?case by simp
qed


theorem validate_returns_or_raises_witness:
  "is_valid (PStr (lit ''0123456789abcdef01234567'')) \<lparr>clock = 0, random5 = 0, inc = 0\<rparr>
   \<and> validate (PStr (lit ''0123456789abcdef01234567'')) \<lparr>clock = 0, random5 = 0, inc = 0\<rparr>
       = (Inr (ObjectId (map char_of [1, 35, 69, 103, 137, 171, 205, 239, 1, 35, 69, 103 :: nat])),
          \<lparr>clock = 0, random5 = 0, inc = 0\<rparr>)
   \<and> \<not> is_valid (PStr (lit ''abc'')) \<lparr>clock = 0, random5 = 0, inc = 0\<rparr>
   \<and> validate (PStr (lit ''abc'')) \<lparr>clock = 0, random5 = 0, inc = 0\<rparr>
       = (Inl (ValueError ''Invalid objectid''), \<lparr>clock = 0, random5 = 0, inc = 0\<rparr>)"
proof -
  have a: "is_valid (PStr (lit ''0123456789abcdef01234567'')) \<lparr>clock = 0, random5 = 0, inc = 0\<rparr>"
    by (simp add: is_valid_def ObjectId_init_def Py_ISSPACE_def hex_value_def)
  have b: "\<not> is_valid (PStr (lit ''abc'')) \<lparr>clock = 0, random5 = 0, inc = 0\<rparr>"
    by (simp add: is_valid_def ObjectId_init_def)
  have c: "fst (ObjectId_init (PStr (lit ''0123456789abcdef01234567'')) \<lparr>clock = 0, random5 = 0, inc = 0\<rparr>)
      = Inr (ObjectId (map char_of [1, 35, 69, 103, 137, 171, 205, 239, 1, 35, 69, 103 :: nat]))"
    by (simp add: ObjectId_init_def Py_ISSPACE_def hex_value_def)
  show ?thesis
    using a b c
      validate_returns_or_raises [of "PStr (lit ''0123456789abcdef01234567'')" "\<lparr>clock = 0, random5 = 0, inc = 0\<rparr>"]
      validate_returns_or_raises [of "PStr (lit ''abc'')" "\<lparr>clock = 0, random5 = 0, inc = 0\<rparr>"]
    by auto
qed

text \<open>
  Claim C10. \<open>PyObjectId.validate\<close> accepts exactly the values \<open>ObjectId.is_valid\<close>
  accepts. These are more than the texts of 24 hexadecimal digits: every such text is
  accepted, and so are a sequence of 12 bytes (taken as the identifier's bytes) and an
  identifier (returned as it is), which are no text at all.
\<close>

theorem is_valid_broader_than_hex:
  "(\<not> isl (fst (validate v s)) \<longleftrightarrow> is_valid v s)
   \<and> (length b = 12 \<longrightarrow> is_valid (PBytes b) s \<and> validate (PBytes b) s = (Inr (ObjectId b), s))
   \<and> is_valid (PObjectId x) s \<and> validate (PObjectId x) s = (Inr x, s)
   \<and> (length t = 24 \<and> list_all (\<lambda>c. hex_value c \<noteq> None) t \<longrightarrow>
        is_valid (PStr t) s \<and> (\<exists>b. validate (PStr t) s = (Inr (ObjectId b), s) \<and> length b = 12))
   \<and> (\<exists>u. is_valid u s \<and> (\<forall>t. u \<noteq> PStr t))"
proof -
  have 1: "\<not> isl (fst (validate v s)) \<longleftrightarrow> is_valid v s"
    using is_valid_init [of v s] by (auto simp add: validate_eq)
  have 2: "length b = 12 \<longrightarrow> is_valid (PBytes b) s \<and> validate (PBytes b) s = (Inr (ObjectId b), s)"
    by (simp add: validate_eq is_valid_iff ObjectId_init_def)
  have 3: "is_valid (PObjectId x) s \<and> validate (PObjectId x) s = (Inr x, s)"
    by (simp add: validate_eq is_valid_iff ObjectId_init_def)
  have 4: "length t = 24 \<and> list_all (\<lambda>c. hex_value c \<noteq> None) t \<longrightarrow>
        is_valid (PStr t) s \<and> (\<exists>b. validate (PStr t) s = (Inr (ObjectId b), s) \<and> length b = 12)"
  proof
    assume h: "length t = 24 \<and> list_all (\<lambda>c. hex_value c \<noteq> None) t"
    then obtain b where b: "fromhex t = Some b" "2 * length b = length t"
      using fromhex_digits [of t] by auto
    with h show "is_valid (PStr t) s \<and> (\<exists>b. validate (PStr t) s = (Inr (ObjectId b), s) \<and> length b = 12)"
      by (simp add: validate_eq is_valid_iff ObjectId_init_def)
  qed
  have 5: "\<exists>u. is_valid u s \<and> (\<forall>t. u \<noteq> PStr t)"
    using 3 by (intro exI [of _ "PObjectId x"]) simp
  from 1 2 3 4 5 show ?thesis by blast
qed

theorem is_valid_broader_than_hex_witness:
  "length (map char_of [1, 2, 3, 4, 5, 6, 7, 8, 9, 10, 11, 12 :: nat]) = 12
   \<and> validate (PBytes (map char_of [1, 2, 3, 4, 5, 6, 7, 8, 9, 10, 11, 12 :: nat])) \<lparr>clock = 0, random5 = 0, inc = 0\<rparr>
       = (Inr (ObjectId (map char_of [1, 2, 3, 4, 5, 6, 7, 8, 9, 10, 11, 12 :: nat])), \<lparr>clock = 0, random5 = 0, inc = 0\<rparr>)
   \<and> length (lit ''0123456789abcdefABCDEF01'') = 24
   \<and> list_all (\<lambda>c. hex_value c \<noteq> None) (lit ''0123456789abcdefABCDEF01'')
   \<and> is_valid (PStr (lit ''0123456789abcdefABCDEF01'')) \<lparr>clock = 0, random5 = 0, inc = 0\<rparr>"
proof -
  have a: "length (map char_of [1, 2, 3, 4, 5, 6, 7, 8, 9, 10, 11, 12 :: nat]) = 12" by simp
  have b: "length (lit ''0123456789abcdefABCDEF01'') = 24
     \<and> list_all (\<lambda>c. hex_value c \<noteq> None) (lit ''0123456789abcdefABCDEF01'')"
    by (simp add: hex_value_def)
  show ?thesis
    using a b
      is_valid_broader_than_hex [of _ "\<lparr>clock = 0, random5 = 0, inc = 0\<rparr>"
        "map char_of [1, 2, 3, 4, 5, 6, 7, 8, 9, 10, 11, 12 :: nat]" _ "lit ''0123456789abcdefABCDEF01''"]
    by blast
qed



subsection \<open>What the validators convert\<close>

lemma digits_value_digits:
  "list_all is_digit ds \<Longrightarrow> ds \<noteq> [] \<Longrightarrow>
     digits_value a u ds = Some (foldl (\<lambda>v c. 10 * v + (c - 48)) a ds)"
proof (induction ds arbitrary: a u)
  case Nil
  then show ?case by simp
next
  case (Cons c ds)
  show ?case
  proof (cases ds)
    case Nil
    with Cons.prems show ?thesis by simp
  next
    case (Cons d r)
    with Cons.prems Cons.IH [of "10 * a + (c - 48)" False] show ?thesis by simp
  qed
qed

lemma str_nat_digits: "list_all is_digit (str_nat n) \<and> str_nat n \<noteq> []"
proof (induction n rule: str_nat.induct)
  case (1 n)
  show ?case
  proof (cases "n < 10")
    case True
    then show ?thesis by (simp add: str_nat.simps [of n] digit_char_def is_digit_def)
  next
    case False
    have "n mod 10 < 10" by simp
    with False "1.IH" show ?thesis
      by (simp add: str_nat.simps [of n] digit_char_def is_digit_def)
  qed
qed

lemma str_nat_value: "foldl (\<lambda>v c. 10 * v + (c - 48)) 0 (str_nat n) = n"
proof (induction n rule: str_nat.induct)
  case (1 n)
  show ?case
  proof (cases "n < 10")
    case True
    then show ?thesis by (simp add: str_nat.simps [of n] digit_char_def)
  next
    case False
    with "1.IH" show ?thesis by (simp add: str_nat.simps [of n] digit_char_def)
  qed
qed

lemma digits_value_str_nat: "digits_value 0 u (str_nat n) = Some n"
  using str_nat_digits [of n] by (simp add: digits_value_digits str_nat_value)

lemma is_digit_not_space: "is_digit c \<Longrightarrow> \<not> Py_ISSPACE c"
  by (auto simp add: is_digit_def Py_ISSPACE_def)

lemma is_digit_ascii: "is_digit c \<Longrightarrow> to_ascii c = Some c"
  by (simp add: is_digit_def to_ascii_def)

lemma those_map_Some: "list_all (\<lambda>c. f c = Some c) xs \<Longrightarrow> those (map f xs) = Some xs"
  by (induction xs) simp_all

lemma list_all_weaken: "list_all P xs \<Longrightarrow> (\<And>x. P x \<Longrightarrow> Q x) \<Longrightarrow> list_all Q xs"
  by (induction xs) auto

lemma strip_digits:
  assumes "list_all is_digit ds" and "ds \<noteq> []"
  shows "rev (dropWhile Py_ISSPACE (rev (dropWhile Py_ISSPACE ds))) = ds"
proof -
  from assms have "is_digit (hd ds)" and "is_digit (last ds)"
    by (simp_all add: list_all_iff)
  then have h: "\<not> Py_ISSPACE (hd ds)" and l: "\<not> Py_ISSPACE (last ds)"
    by (simp_all add: is_digit_not_space)
  from h have 1: "dropWhile Py_ISSPACE ds = ds" by (simp add: dropWhile_eq_self_iff)
  from l assms(2) have "dropWhile Py_ISSPACE (rev ds) = rev ds"
    by (simp add: dropWhile_eq_self_iff hd_rev)
  with 1 show ?thesis by simp
qed

lemma int_literal_str_nat: "int_literal (str_nat n) = Some (int n)"
proof -
  have d: "list_all is_digit (str_nat n)" and e: "str_nat n \<noteq> []"
    using str_nat_digits [of n] by simp_all
  then obtain c cs where c: "str_nat n = c # cs" by (cases "str_nat n") auto
  with d have "is_digit c" by simp
  then have "c \<noteq> 45" "c \<noteq> 43" by (auto simp add: is_digit_def)
  with c strip_digits [OF d e] digits_value_str_nat [of True n] show ?thesis
    by (simp add: int_literal_def)
qed

lemma int_literal_minus_str_nat: "int_literal (45 # str_nat n) = Some (- int n)"
proof -
  have d: "list_all is_digit (str_nat n)" and e: "str_nat n \<noteq> []"
    using str_nat_digits [of n] by simp_all
  from d e have "is_digit (last (str_nat n))" by (simp add: list_all_iff)
  then have "\<not> Py_ISSPACE (last (str_nat n))" by (rule is_digit_not_space)
  with e have "dropWhile Py_ISSPACE (rev (str_nat n) @ [45]) = rev (str_nat n) @ [45]"
    by (cases "rev (str_nat n)") (auto simp add: last_rev hd_rev dest: arg_cong [where f = hd])
  then have "rev (dropWhile Py_ISSPACE (rev (dropWhile Py_ISSPACE (45 # str_nat n)))) = 45 # str_nat n"
    by (simp add: Py_ISSPACE_def)
  with digits_value_str_nat [of True n] show ?thesis by (simp add: int_literal_def)
qed

lemma int_literal_str_int: "int_literal (str_int i) = Some i"
  by (simp add: str_int_def int_literal_str_nat int_literal_minus_str_nat)

lemma to_ascii_str_int: "those (map to_ascii (str_int i)) = Some (str_int i)"
proof -
  have "list_all (\<lambda>c. to_ascii c = Some c) (str_nat n)" for n
    using str_nat_digits [of n] by (auto intro: list_all_weaken is_digit_ascii)
  then show ?thesis by (simp add: str_int_def those_map_Some to_ascii_def)
qed

lemma int_validator_decimal_text:
  "length (str_int i) \<le> 4300 \<Longrightarrow> int_validator (PStr (str_int i)) = Inr i"
  by (simp add: int_validator_def to_ascii_str_int int_literal_str_int)

lemma int_validator_bool: "int_validator (PBool b) = Inr (if b then 1 else 0)"
  by (simp add: int_validator_def)

lemma int_validator_int: "int_validator (PInt i) = Inr i"
  by (simp add: int_validator_def)

lemma int_validator_error: "int_validator v = Inl e \<Longrightarrow> e = IntegerError"
  by (cases v) (auto simp add: int_validator_def split: if_splits option.splits)

lemma int_validator_long_text: "4300 < length t \<Longrightarrow> int_validator (PStr t) = Inl IntegerError"
  by (simp add: int_validator_def)


section \<open>Properties of the models\<close>

lemma validate_state: "snd (validate v s) = s"
  by (simp add: validate_eq)

lemma validate_value: "fst (validate v s) = fst (validate v s')"
  using ObjectId_init_value [of v s s'] is_valid_not_None [of v s]
  by (auto simp add: validate_eq is_valid_iff split: pyval.splits)

lemma apply_validators_state: "snd (apply_validators t v s) = s"
  by (cases t) (simp_all add: apply_validators_def validate_state)

lemma field_validate_state: "snd (field_validate f v s) = s"
  by (simp add: field_validate_def apply_validators_state)

lemma field_validate_value: "fst (field_validate f v s) = fst (field_validate f v s')"
  using validate_value [of v s s']
  by (cases "ftype f") (simp_all add: field_validate_def apply_validators_def)

lemma validate_field_supplied:
  "input_data (falias f) = Some v \<Longrightarrow>
     validate_field f input_data s =
       (case fst (field_validate f v s) of
          Inl e \<Rightarrow> Inl (falias f, e)
        | Inr x \<Rightarrow> Inr (fname f, x), s)"
  by (simp add: validate_field_def field_validate_state split: sum.splits)



lemma validate_field_factory:
  "input_data (falias f) = None \<Longrightarrow> fdefault f = Default_factory_PyObjectId \<Longrightarrow>
     validate_field f input_data s = (Inr (fname f, VObjectId (fst (generate s))), snd (generate s))"
  by (simp add: validate_field_def ObjectId_init_def)

lemma validate_field_missing:
  "input_data (falias f) = None \<Longrightarrow> fdefault f = Required \<Longrightarrow>
     validate_field f input_data s = (Inl (falias f, MissingError), s)"
  by (simp add: validate_field_def)


lemma lefts_Nil_iff: "lefts rs = [] \<longleftrightarrow> rs = map Inr (rights rs)"
  by (induction rs rule: lefts.induct) (auto simp add: Cons_eq_map_conv)

lemma rights_map_Inr: "rights (map Inr xs) = xs"
  by (induction xs) simp_all

lemma lefts_map_Inr: "lefts (map Inr xs) = []"
  by (induction xs) simp_all

lemma validate_model_Inr_iff:
  "fst (validate_model fs input_data s) = Inr vals \<longleftrightarrow>
     fst (validate_fields fs input_data s) = map Inr vals"
  using lefts_Nil_iff [of "fst (validate_fields fs input_data s)"]
  by (auto simp add: validate_model_def rights_map_Inr lefts_map_Inr)

lemma Inl_in_lefts: "Inl e \<in> set rs \<Longrightarrow> e \<in> set (lefts rs)"
  by (induction rs rule: lefts.induct) auto

lemma validate_model_Inl:
  "Inl e \<in> set (fst (validate_fields fs input_data s)) \<Longrightarrow>
     \<exists>errs. fst (validate_model fs input_data s) = Inl errs \<and> e \<in> set errs"
  using Inl_in_lefts [of e "fst (validate_fields fs input_data s)"]
  by (auto simp add: validate_model_def)

lemma CarBase_fields_list:
  "CarBase_fields =
     [\<lparr>fname = ''id'', falias = ''_id'', ftype = T_PyObjectId,
       fdefault = Default_factory_PyObjectId, allow_none = False\<rparr>,
      \<lparr>fname = ''brand'', falias = ''brand'', ftype = T_str (Some 3),
       fdefault = Required, allow_none = False\<rparr>,
      \<lparr>fname = ''make'', falias = ''make'', ftype = T_str (Some 3),
       fdefault = Required, allow_none = False\<rparr>,
      \<lparr>fname = ''year'', falias = ''year'', ftype = T_int,
       fdefault = Required, allow_none = False\<rparr>,
      \<lparr>fname = ''price'', falias = ''price'', ftype = T_int,
       fdefault = Required, allow_none = False\<rparr>,
      \<lparr>fname = ''km'', falias = ''km'', ftype = T_int,
       fdefault = Required, allow_none = False\<rparr>,
      \<lparr>fname = ''cm3'', falias = ''cm3'', ftype = T_int,
       fdefault = Required, allow_none = False\<rparr>]"
  by (simp add: CarBase_fields_def MongoBaseModel_fields_def inherit_def add_field_def)


lemma CarDB_fields_CarBase: "CarDB_fields = CarBase_fields"
  by (simp add: CarDB_fields_def inherit_def)


lemma map_sum_Inr_iff: "map_sum f g r = Inr y \<longleftrightarrow> (\<exists>x. r = Inr x \<and> y = g x)"
  by (cases r) auto

lemma map_sum_Inl_iff: "map_sum f g r = Inl y \<longleftrightarrow> (\<exists>x. r = Inl x \<and> y = f x)"
  by (cases r) auto

lemma str_field_Inr:
  assumes "fst (validate_field f input_data s) = Inr kv"
    and "ftype f = T_str (Some m)" and "fdefault f = Required" and "\<not> allow_none f"
  shows "\<exists>v t. input_data (falias f) = Some v \<and> v \<noteq> PNone \<and> str_validator v = Inr t
            \<and> m \<le> length t \<and> kv = (fname f, VStr t)"
proof (cases "input_data (falias f)")
  case None
  with assms show ?thesis by (simp add: validate_field_missing)
next
  case (Some v)
  with assms show ?thesis
    by (auto simp add: validate_field_supplied field_validate_def apply_validators_def
        constr_length_validator_def split: sum.splits if_splits)
qed

lemma int_field_Inr:
  assumes "fst (validate_field f input_data s) = Inr kv"
    and "ftype f = T_int" and "fdefault f = Required" and "\<not> allow_none f"
  shows "\<exists>v i. input_data (falias f) = Some v \<and> v \<noteq> PNone \<and> int_validator v = Inr i
            \<and> kv = (fname f, VInt i)"
proof (cases "input_data (falias f)")
  case None
  with assms show ?thesis by (simp add: validate_field_missing)
next
  case (Some v)
  with assms show ?thesis
    by (auto simp add: validate_field_supplied field_validate_def apply_validators_def
        map_sum_Inr_iff split: sum.splits if_splits)
qed

lemma id_field_Inr:
  assumes "fst (validate_field f input_data s) = Inr kv"
    and "ftype f = T_PyObjectId" and "fdefault f = Default_factory_PyObjectId" and "\<not> allow_none f"
  shows "\<exists>x. kv = (fname f, VObjectId x) \<and>
           (case input_data (falias f) of
              None \<Rightarrow> x = fst (generate s)
            | Some v \<Rightarrow> is_valid v s \<and> fst (ObjectId_init v s) = Inr x)"
proof (cases "input_data (falias f)")
  case None
  with assms show ?thesis by (simp add: validate_field_factory)
next
  case (Some v)
  with assms show ?thesis
    by (auto simp add: validate_field_supplied field_validate_def apply_validators_def
        validate_eq map_sum_Inr_iff split: sum.splits if_splits)
qed

lemma CarBase_Inr:
  assumes "fst (validate_model CarBase_fields input_data s) = Inr vals"
  shows "\<exists>x b m y p k c.
           vals = [(''id'', VObjectId x), (''brand'', VStr b), (''make'', VStr m),
                   (''year'', VInt y), (''price'', VInt p), (''km'', VInt k), (''cm3'', VInt c)]
           \<and> 3 \<le> length b \<and> 3 \<le> length m
           \<and> (case input_data ''_id'' of
                 None \<Rightarrow> x = fst (generate s)
               | Some v \<Rightarrow> is_valid v s \<and> fst (ObjectId_init v s) = Inr x)
           \<and> (\<exists>v. input_data ''brand'' = Some v \<and> v \<noteq> PNone \<and> str_validator v = Inr b)
           \<and> (\<exists>v. input_data ''make'' = Some v \<and> v \<noteq> PNone \<and> str_validator v = Inr m)
           \<and> (\<exists>v. input_data ''year'' = Some v \<and> v \<noteq> PNone \<and> int_validator v = Inr y)
           \<and> (\<exists>v. input_data ''price'' = Some v \<and> v \<noteq> PNone \<and> int_validator v = Inr p)
           \<and> (\<exists>v. input_data ''km'' = Some v \<and> v \<noteq> PNone \<and> int_validator v = Inr k)
           \<and> (\<exists>v. input_data ''cm3'' = Some v \<and> v \<noteq> PNone \<and> int_validator v = Inr c)"
proof -
  from assms have "fst (validate_fields CarBase_fields input_data s) = map Inr vals"
    by (simp add: validate_model_Inr_iff)
  then obtain kv0 kv1 kv2 kv3 kv4 kv5 kv6 s1 s2 s3 s4 s5 s6 where
    vals: "vals = [kv0, kv1, kv2, kv3, kv4, kv5, kv6]"
    and r0: "fst (validate_field \<lparr>fname = ''id'', falias = ''_id'', ftype = T_PyObjectId,
       fdefault = Default_factory_PyObjectId, allow_none = False\<rparr> input_data s) = Inr kv0"
    and r1: "fst (validate_field \<lparr>fname = ''brand'', falias = ''brand'', ftype = T_str (Some 3),
       fdefault = Required, allow_none = False\<rparr> input_data s1) = Inr kv1"
    and r2: "fst (validate_field \<lparr>fname = ''make'', falias = ''make'', ftype = T_str (Some 3),
       fdefault = Required, allow_none = False\<rparr> input_data s2) = Inr kv2"
    and r3: "fst (validate_field \<lparr>fname = ''year'', falias = ''year'', ftype = T_int,
       fdefault = Required, allow_none = False\<rparr> input_data s3) = Inr kv3"
    and r4: "fst (validate_field \<lparr>fname = ''price'', falias = ''price'', ftype = T_int,
       fdefault = Required, allow_none = False\<rparr> input_data s4) = Inr kv4"
    and r5: "fst (validate_field \<lparr>fname = ''km'', falias = ''km'', ftype = T_int,
       fdefault = Required, allow_none = False\<rparr> input_data s5) = Inr kv5"
    and r6: "fst (validate_field \<lparr>fname = ''cm3'', falias = ''cm3'', ftype = T_int,
       fdefault = Required, allow_none = False\<rparr> input_data s6) = Inr kv6"
    by (auto simp add: CarBase_fields_list Cons_eq_map_conv)
  from id_field_Inr [OF r0] str_field_Inr [OF r1] str_field_Inr [OF r2]
    int_field_Inr [OF r3] int_field_Inr [OF r4] int_field_Inr [OF r5] int_field_Inr [OF r6] vals
  show ?thesis by auto
qed


lemma str_field_ok:
  "input_data (falias f) = Some (PStr t) \<Longrightarrow> ftype f = T_str (Some m) \<Longrightarrow> m \<le> length t \<Longrightarrow>
     validate_field f input_data s = (Inr (fname f, VStr t), s)"
  by (simp add: validate_field_supplied field_validate_def apply_validators_def
      str_validator_def constr_length_validator_def)

lemma int_field_ok:
  "input_data (falias f) = Some (PInt i) \<Longrightarrow> ftype f = T_int \<Longrightarrow>
     validate_field f input_data s = (Inr (fname f, VInt i), s)"
  by (simp add: validate_field_supplied field_validate_def apply_validators_def int_validator_def)

lemma id_field_ok:
  assumes "input_data (falias f) = Some v" and "is_valid v s" and "ftype f = T_PyObjectId"
  shows "\<exists>x. validate_field f input_data s = (Inr (fname f, VObjectId x), s)
           \<and> fst (ObjectId_init v s) = Inr x"
proof -
  from assms(2) obtain x where "fst (ObjectId_init v s) = Inr x"
    using is_valid_init by blast
  with assms is_valid_not_None [OF assms(2)] show ?thesis
    by (simp add: validate_field_supplied field_validate_def apply_validators_def validate_eq)
qed

lemma str_field_short:
  "input_data (falias f) = Some (PStr t) \<Longrightarrow> ftype f = T_str (Some m) \<Longrightarrow> length t < m \<Longrightarrow>
     fst (validate_field f input_data s) = Inl (falias f, AnyStrMinLengthError m)"
  by (simp add: validate_field_supplied field_validate_def apply_validators_def
      str_validator_def constr_length_validator_def)

lemma field_none:
  "input_data (falias f) = Some PNone \<Longrightarrow> \<not> allow_none f \<Longrightarrow>
     fst (validate_field f input_data s) = Inl (falias f, NoneIsNotAllowedError)"
  by (simp add: validate_field_supplied field_validate_def)

lemma int_field_bad:
  assumes "input_data (falias f) = Some v" and "v \<noteq> PNone" and "py_int v = None" and "ftype f = T_int"
  shows "fst (validate_field f input_data s) = Inl (falias f, IntegerError)"
proof -
  from assms(3) have "int_validator v = Inl IntegerError"
    by (cases v) (simp_all add: int_validator_def)
  with assms show ?thesis
    by (simp add: validate_field_supplied field_validate_def apply_validators_def)
qed

lemma id_field_invalid:
  "input_data (falias f) = Some v \<Longrightarrow> v \<noteq> PNone \<Longrightarrow> \<not> is_valid v s \<Longrightarrow> ftype f = T_PyObjectId \<Longrightarrow>
     fst (validate_field f input_data s) = Inl (falias f, ValueError ''Invalid objectid'')"
  by (simp add: validate_field_supplied field_validate_def apply_validators_def validate_eq)

lemma is_valid_state: "is_valid v s = is_valid v s'"
  by (simp add: is_valid_iff)

lemma field_result_in_results:
  "f \<in> set fs \<Longrightarrow> \<exists>s'. fst (validate_field f input_data s') \<in> set (fst (validate_fields fs input_data s))"
proof (induction fs arbitrary: s)
  case Nil
  then show ?case by simp
next
  case (Cons g fs)
  show ?case
  proof (cases "f = g")
    case True
    then show ?thesis by auto
  next
    case False
    with Cons.prems have "f \<in> set fs" by simp
    from Cons.IH [OF this, of "snd (validate_field g input_data s)"] show ?thesis by auto
  qed
qed

lemma field_error_in_model:
  assumes "f \<in> set fs" and "\<And>s'. fst (validate_field f input_data s') = Inl e"
  shows "\<exists>errs. fst (validate_model fs input_data s) = Inl errs \<and> e \<in> set errs"
proof -
  from field_result_in_results [OF assms(1), of input_data s] assms(2)
  have "Inl e \<in> set (fst (validate_fields fs input_data s))" by auto
  then show ?thesis by (rule validate_model_Inl)
qed

lemma str_field_coerced:
  "input_data (falias f) = Some v \<Longrightarrow> v \<noteq> PNone \<Longrightarrow> str_validator v = Inr t \<Longrightarrow>
   ftype f = T_str (Some m) \<Longrightarrow> m \<le> length t \<Longrightarrow>
     validate_field f input_data s = (Inr (fname f, VStr t), s)"
  by (simp add: validate_field_supplied field_validate_def apply_validators_def
      constr_length_validator_def)

lemma int_field_coerced:
  "input_data (falias f) = Some v \<Longrightarrow> v \<noteq> PNone \<Longrightarrow> int_validator v = Inr i \<Longrightarrow> ftype f = T_int \<Longrightarrow>
     validate_field f input_data s = (Inr (fname f, VInt i), s)"
  by (simp add: validate_field_supplied field_validate_def apply_validators_def)

lemma CarBase_ok:
  assumes "input_data ''brand'' = Some vb" and "vb \<noteq> PNone" and "str_validator vb = Inr b" and "3 \<le> length b"
    and "input_data ''make'' = Some vm" and "vm \<noteq> PNone" and "str_validator vm = Inr m" and "3 \<le> length m"
    and "input_data ''year'' = Some vy" and "vy \<noteq> PNone" and "int_validator vy = Inr y"
    and "input_data ''price'' = Some vp" and "vp \<noteq> PNone" and "int_validator vp = Inr p"
    and "input_data ''km'' = Some vk" and "vk \<noteq> PNone" and "int_validator vk = Inr k"
    and "input_data ''cm3'' = Some vc" and "vc \<noteq> PNone" and "int_validator vc = Inr c"
    and "input_data ''_id'' = None \<or> (\<exists>v. input_data ''_id'' = Some v \<and> is_valid v s)"
  shows "\<exists>x. fst (validate_model CarBase_fields input_data s) =
           Inr [(''id'', VObjectId x), (''brand'', VStr b), (''make'', VStr m),
                (''year'', VInt y), (''price'', VInt p), (''km'', VInt k), (''cm3'', VInt c)]
          \<and> (case input_data ''_id'' of
                 None \<Rightarrow> x = fst (generate s)
               | Some v \<Rightarrow> fst (ObjectId_init v s) = Inr x)"
proof -
  from assms(21) obtain x s1 where
    f0: "validate_field \<lparr>fname = ''id'', falias = ''_id'', ftype = T_PyObjectId,
       fdefault = Default_factory_PyObjectId, allow_none = False\<rparr> input_data s
        = (Inr (''id'', VObjectId x), s1)"
    and x: "case input_data ''_id'' of
                 None \<Rightarrow> x = fst (generate s)
               | Some v \<Rightarrow> fst (ObjectId_init v s) = Inr x"
  proof
    assume n: "input_data ''_id'' = None"
    then have "validate_field \<lparr>fname = ''id'', falias = ''_id'', ftype = T_PyObjectId,
       fdefault = Default_factory_PyObjectId, allow_none = False\<rparr> input_data s
        = (Inr (''id'', VObjectId (fst (generate s))), snd (generate s))"
      by (simp add: validate_field_factory)
    with n show thesis by (intro that) simp_all
  next
    assume "\<exists>v. input_data ''_id'' = Some v \<and> is_valid v s"
    then obtain v where v: "input_data ''_id'' = Some v" "is_valid v s" by blast
    from id_field_ok [of input_data "\<lparr>fname = ''id'', falias = ''_id'', ftype = T_PyObjectId,
       fdefault = Default_factory_PyObjectId, allow_none = False\<rparr>" v s] v
    obtain x where "validate_field \<lparr>fname = ''id'', falias = ''_id'', ftype = T_PyObjectId,
       fdefault = Default_factory_PyObjectId, allow_none = False\<rparr> input_data s
        = (Inr (''id'', VObjectId x), s)" "fst (ObjectId_init v s) = Inr x" by auto
    with v show thesis by (intro that) simp_all
  qed
  have f1: "validate_field \<lparr>fname = ''brand'', falias = ''brand'', ftype = T_str (Some 3),
       fdefault = Required, allow_none = False\<rparr> input_data s1 = (Inr (''brand'', VStr b), s1)"
    using assms(1-4) by (simp add: str_field_coerced)
  have f2: "validate_field \<lparr>fname = ''make'', falias = ''make'', ftype = T_str (Some 3),
       fdefault = Required, allow_none = False\<rparr> input_data s1 = (Inr (''make'', VStr m), s1)"
    using assms(5-8) by (simp add: str_field_coerced)
  have f3: "validate_field \<lparr>fname = ''year'', falias = ''year'', ftype = T_int,
       fdefault = Required, allow_none = False\<rparr> input_data s1 = (Inr (''year'', VInt y), s1)"
    using assms(9-11) by (simp add: int_field_coerced)
  have f4: "validate_field \<lparr>fname = ''price'', falias = ''price'', ftype = T_int,
       fdefault = Required, allow_none = False\<rparr> input_data s1 = (Inr (''price'', VInt p), s1)"
    using assms(12-14) by (simp add: int_field_coerced)
  have f5: "validate_field \<lparr>fname = ''km'', falias = ''km'', ftype = T_int,
       fdefault = Required, allow_none = False\<rparr> input_data s1 = (Inr (''km'', VInt k), s1)"
    using assms(15-17) by (simp add: int_field_coerced)
  have f6: "validate_field \<lparr>fname = ''cm3'', falias = ''cm3'', ftype = T_int,
       fdefault = Required, allow_none = False\<rparr> input_data s1 = (Inr (''cm3'', VInt c), s1)"
    using assms(18-20) by (simp add: int_field_coerced)
  have "fst (validate_fields CarBase_fields input_data s) =
     map Inr [(''id'', VObjectId x), (''brand'', VStr b), (''make'', VStr m),
                (''year'', VInt y), (''price'', VInt p), (''km'', VInt k), (''cm3'', VInt c)]"
    by (simp add: CarBase_fields_list f0 f1 f2 f3 f4 f5 f6)
  with x show ?thesis by (auto simp add: validate_model_Inr_iff)
qed






lemma id_field_refused:
  "input_data (falias f) = Some v \<Longrightarrow> v \<noteq> PNone \<Longrightarrow> \<not> is_valid v s \<Longrightarrow> ftype f = T_PyObjectId \<Longrightarrow>
     validate_field f input_data s = (Inl (falias f, ValueError ''Invalid objectid''), s)"
  by (simp add: validate_field_supplied field_validate_def apply_validators_def validate_eq)

lemma int_field_refused:
  assumes "input_data (falias f) = Some v" and "v \<noteq> PNone" and "int_validator v = Inl e"
    and "ftype f = T_int"
  shows "fst (validate_field f input_data s) = Inl (falias f, IntegerError)"
  using assms int_validator_error [OF assms(3)]
  by (simp add: validate_field_supplied field_validate_def apply_validators_def)

lemma CarBase_bad_id:
  assumes "input_data ''brand'' = Some (PStr b)" and "3 \<le> length b"
    and "input_data ''make'' = Some (PStr m)" and "3 \<le> length m"
    and "input_data ''year'' = Some (PInt y)" and "input_data ''price'' = Some (PInt p)"
    and "input_data ''km'' = Some (PInt k)" and "input_data ''cm3'' = Some (PInt c)"
    and "input_data ''_id'' = Some v" and "v \<noteq> PNone" and "\<not> is_valid v s"
  shows "validate_model CarBase_fields input_data s = (Inl [(''_id'', ValueError ''Invalid objectid'')], s)"
proof -
  have f0: "validate_field \<lparr>fname = ''id'', falias = ''_id'', ftype = T_PyObjectId,
       fdefault = Default_factory_PyObjectId, allow_none = False\<rparr> input_data s
        = (Inl (''_id'', ValueError ''Invalid objectid''), s)"
    using assms(9-11) by (simp add: id_field_refused)
  have f1: "validate_field \<lparr>fname = ''brand'', falias = ''brand'', ftype = T_str (Some 3),
       fdefault = Required, allow_none = False\<rparr> input_data s = (Inr (''brand'', VStr b), s)"
    using assms(1,2) by (simp add: str_field_ok)
  have f2: "validate_field \<lparr>fname = ''make'', falias = ''make'', ftype = T_str (Some 3),
       fdefault = Required, allow_none = False\<rparr> input_data s = (Inr (''make'', VStr m), s)"
    using assms(3,4) by (simp add: str_field_ok)
  have f3: "validate_field \<lparr>fname = ''year'', falias = ''year'', ftype = T_int,
       fdefault = Required, allow_none = False\<rparr> input_data s = (Inr (''year'', VInt y), s)"
    using assms(5) by (simp add: int_field_ok)
  have f4: "validate_field \<lparr>fname = ''price'', falias = ''price'', ftype = T_int,
       fdefault = Required, allow_none = False\<rparr> input_data s = (Inr (''price'', VInt p), s)"
    using assms(6) by (simp add: int_field_ok)
  have f5: "validate_field \<lparr>fname = ''km'', falias = ''km'', ftype = T_int,
       fdefault = Required, allow_none = False\<rparr> input_data s = (Inr (''km'', VInt k), s)"
    using assms(7) by (simp add: int_field_ok)
  have f6: "validate_field \<lparr>fname = ''cm3'', falias = ''cm3'', ftype = T_int,
       fdefault = Required, allow_none = False\<rparr> input_data s = (Inr (''cm3'', VInt c), s)"
    using assms(8) by (simp add: int_field_ok)
  show ?thesis
    by (simp add: validate_model_def CarBase_fields_list f0 f1 f2 f3 f4 f5 f6)
qed



subsection \<open>The base shape of a car\<close>

lemma py_int_2020: "py_int (PStr (lit ''2020'')) = Some 2020"
  by (simp add: to_ascii_def int_literal_def Py_ISSPACE_def is_digit_def)

lemma int_validator_2020: "int_validator (PStr (lit ''2020'')) = Inr 2020"
  using py_int_2020 by (simp add: int_validator_def del: py_int.simps)

lemma int_validator_no_literal: "int_validator (PStr (lit ''20x0'')) = Inl IntegerError"
  by (simp add: int_validator_def to_ascii_def int_literal_def Py_ISSPACE_def is_digit_def)

lemma year_text_accepted:
  "fst (CarBase [''brand'' \<mapsto> PStr (lit ''Fiat''), ''make'' \<mapsto> PStr (lit ''Panda''), ''year'' \<mapsto> PStr (lit ''2020''),
          ''price'' \<mapsto> PInt 4500, ''km'' \<mapsto> PInt 90000, ''cm3'' \<mapsto> PInt 1200]
        \<lparr>clock = 0, random5 = 0, inc = 0\<rparr>)
     = Inr [(''id'', VObjectId (fst (generate \<lparr>clock = 0, random5 = 0, inc = 0\<rparr>))),
            (''brand'', VStr (lit ''Fiat'')), (''make'', VStr (lit ''Panda'')), (''year'', VInt 2020),
            (''price'', VInt 4500), (''km'', VInt 90000), (''cm3'', VInt 1200)]"
  using CarBase_ok [of "[''brand'' \<mapsto> PStr (lit ''Fiat''), ''make'' \<mapsto> PStr (lit ''Panda''), ''year'' \<mapsto> PStr (lit ''2020''),
          ''price'' \<mapsto> PInt 4500, ''km'' \<mapsto> PInt 90000, ''cm3'' \<mapsto> PInt 1200]"
        "PStr (lit ''Fiat'')" "lit ''Fiat''" "PStr (lit ''Panda'')" "lit ''Panda''" "PStr (lit ''2020'')" 2020
        "PInt 4500" 4500 "PInt 90000" 90000 "PInt 1200" 1200 "\<lparr>clock = 0, random5 = 0, inc = 0\<rparr>"]
    int_validator_2020
  by (simp add: CarBase_def str_validator_def int_validator_int)

lemma bad_id_refused:
  "fst (CarBase [''_id'' \<mapsto> PStr (lit ''xyz''), ''brand'' \<mapsto> PStr (lit ''Fiat''), ''make'' \<mapsto> PStr (lit ''Panda''),
          ''year'' \<mapsto> PInt 2020, ''price'' \<mapsto> PInt 4500, ''km'' \<mapsto> PInt 90000, ''cm3'' \<mapsto> PInt 1200]
        \<lparr>clock = 0, random5 = 0, inc = 0\<rparr>) = Inl [(''_id'', ValueError ''Invalid objectid'')]"
  using CarBase_bad_id [of "[''_id'' \<mapsto> PStr (lit ''xyz''), ''brand'' \<mapsto> PStr (lit ''Fiat''), ''make'' \<mapsto> PStr (lit ''Panda''),
          ''year'' \<mapsto> PInt 2020, ''price'' \<mapsto> PInt 4500, ''km'' \<mapsto> PInt 90000, ''cm3'' \<mapsto> PInt 1200]"
        "lit ''Fiat''" "lit ''Panda''" 2020 4500 90000 1200 "PStr (lit ''xyz'')"
        "\<lparr>clock = 0, random5 = 0, inc = 0\<rparr>"]
  by (simp add: CarBase_def is_valid_iff)

lemma msg_min_length_3: "msg (AnyStrMinLengthError 3) = Some ''ensure this value has at least 3 characters''"
  by (simp add: str_nat.simps digit_char_def char_of_eq_iff)

lemma str_fields_of_CarBase:
  "n \<in> set [''brand'', ''make''] \<Longrightarrow>
     \<lparr>fname = n, falias = n, ftype = T_str (Some 3), fdefault = Required, allow_none = False\<rparr>
       \<in> set CarBase_fields"
  by (auto simp add: CarBase_fields_list)

lemma int_fields_of_CarBase:
  "n \<in> set [''year'', ''price'', ''km'', ''cm3''] \<Longrightarrow>
     \<lparr>fname = n, falias = n, ftype = T_int, fdefault = Required, allow_none = False\<rparr>
       \<in> set CarBase_fields"
  by (auto simp add: CarBase_fields_list)

lemma int_validator_refuses:
  "int_validator (PList xs) = Inl IntegerError \<and> int_validator (PDict kvs) = Inl IntegerError
   \<and> int_validator (PObjectId x) = Inl IntegerError"
  by (simp add: int_validator_def)

lemma int_validator_no_int:
  "py_int v = None \<Longrightarrow> int_validator v = Inl IntegerError"
  by (cases v) (simp_all add: int_validator_def)

text \<open>
  Claim C2, as the code has it. Constructing \<open>CarBase\<close> fails with a validation error
  that names the field and the constraint: when \<open>brand\<close> or \<open>make\<close> is text shorter than
  3 characters ("ensure this value has at least 3 characters"), and when one of \<open>year\<close>,
  \<open>price\<close>, \<open>km\<close>, \<open>cm3\<close> is missing ("field required"), is None ("none is not an
  allowed value") or is a value that the integer validator of the library refuses
  ("value is not a valid integer"). The validator refuses a list, a dict, an
  identifier, every value that \<open>int()\<close> does not read (such as the text \<open>20x0\<close>) and
  text of more than 4300 characters. It is not strict: an integer of any size is kept,
  and a value that is no integer but that it converts is accepted and stored as the
  integer, a boolean as 0 or 1 and the decimal text of an integer, of at most 4300
  characters, as that integer. Construction succeeds exactly when \<open>brand\<close> and \<open>make\<close>
  are values other than None that the text validator turns into text of length at
  least 3 (text is kept as it is), the four numeric fields are values other than None
  that the integer validator converts, and \<open>_id\<close> is absent or a valid identifier; the
  instance then holds the converted values.
\<close>

theorem CarBase_validation:
  "(\<forall>n\<in>set [''brand'', ''make'']. \<forall>t. input_data n = Some (PStr t) \<and> length t < 3 \<longrightarrow>
       (\<exists>errs. fst (CarBase input_data s) = Inl errs \<and> (n, AnyStrMinLengthError 3) \<in> set errs))
   \<and> msg (AnyStrMinLengthError 3) = Some ''ensure this value has at least 3 characters''
   \<and> (\<forall>n\<in>set [''year'', ''price'', ''km'', ''cm3''].
        (input_data n = None \<longrightarrow>
           (\<exists>errs. fst (CarBase input_data s) = Inl errs \<and> (n, MissingError) \<in> set errs))
      \<and> (input_data n = Some PNone \<longrightarrow>
           (\<exists>errs. fst (CarBase input_data s) = Inl errs \<and> (n, NoneIsNotAllowedError) \<in> set errs))
      \<and> (\<forall>v e. input_data n = Some v \<and> v \<noteq> PNone \<and> int_validator v = Inl e \<longrightarrow>
           (\<exists>errs. fst (CarBase input_data s) = Inl errs \<and> (n, IntegerError) \<in> set errs)))
   \<and> msg MissingError = Some ''field required''
   \<and> msg NoneIsNotAllowedError = Some ''none is not an allowed value''
   \<and> msg IntegerError = Some ''value is not a valid integer''
   \<and> int_validator (PList xs) = Inl IntegerError
   \<and> int_validator (PDict kvs) = Inl IntegerError
   \<and> int_validator (PObjectId oid) = Inl IntegerError
   \<and> (py_int w = None \<longrightarrow> int_validator w = Inl IntegerError)
   \<and> int_validator (PStr (lit ''20x0'')) = Inl IntegerError
   \<and> (4300 < length t' \<longrightarrow> int_validator (PStr t') = Inl IntegerError)
   \<and> int_validator (PInt i) = Inr i
   \<and> int_validator (PBool q) = Inr (if q then 1 else 0)
   \<and> (length (str_int i) \<le> 4300 \<longrightarrow> int_validator (PStr (str_int i)) = Inr i)
   \<and> str_validator (PStr t') = Inr t'
   \<and> (fst (CarBase input_data s) = Inr vals \<longleftrightarrow>
        (\<exists>x vb b vm m vy y vp p vk k vc c.
           vals = [(''id'', VObjectId x), (''brand'', VStr b), (''make'', VStr m),
                   (''year'', VInt y), (''price'', VInt p), (''km'', VInt k), (''cm3'', VInt c)]
           \<and> input_data ''brand'' = Some vb \<and> vb \<noteq> PNone \<and> str_validator vb = Inr b \<and> 3 \<le> length b
           \<and> input_data ''make'' = Some vm \<and> vm \<noteq> PNone \<and> str_validator vm = Inr m \<and> 3 \<le> length m
           \<and> input_data ''year'' = Some vy \<and> vy \<noteq> PNone \<and> int_validator vy = Inr y
           \<and> input_data ''price'' = Some vp \<and> vp \<noteq> PNone \<and> int_validator vp = Inr p
           \<and> input_data ''km'' = Some vk \<and> vk \<noteq> PNone \<and> int_validator vk = Inr k
           \<and> input_data ''cm3'' = Some vc \<and> vc \<noteq> PNone \<and> int_validator vc = Inr c
           \<and> (case input_data ''_id'' of
                 None \<Rightarrow> x = fst (generate s)
               | Some v \<Rightarrow> is_valid v s \<and> fst (ObjectId_init v s) = Inr x)))"
proof (intro conjI ballI allI impI)
  fix n t
  assume n: "n \<in> set [''brand'', ''make'']" and t: "input_data n = Some (PStr t) \<and> length t < 3"
  have "\<And>s'. fst (validate_field \<lparr>fname = n, falias = n, ftype = T_str (Some 3),
      fdefault = Required, allow_none = False\<rparr> input_data s') = Inl (n, AnyStrMinLengthError 3)"
    using t str_field_short [of input_data "\<lparr>fname = n, falias = n, ftype = T_str (Some 3),
      fdefault = Required, allow_none = False\<rparr>" t 3] by simp
  from field_error_in_model [OF str_fields_of_CarBase [OF n] this]
  show "\<exists>errs. fst (CarBase input_data s) = Inl errs \<and> (n, AnyStrMinLengthError 3) \<in> set errs"
    by (simp add: CarBase_def)
next
  show "msg (AnyStrMinLengthError 3) = Some ''ensure this value has at least 3 characters''"
    by (rule msg_min_length_3)
next
  fix n
  assume n: "n \<in> set [''year'', ''price'', ''km'', ''cm3'']" and v: "input_data n = None"
  have "\<And>s'. fst (validate_field \<lparr>fname = n, falias = n, ftype = T_int,
      fdefault = Required, allow_none = False\<rparr> input_data s') = Inl (n, MissingError)"
    using v by (simp add: validate_field_missing)
  from field_error_in_model [OF int_fields_of_CarBase [OF n] this]
  show "\<exists>errs. fst (CarBase input_data s) = Inl errs \<and> (n, MissingError) \<in> set errs"
    by (simp add: CarBase_def)
next
  fix n
  assume n: "n \<in> set [''year'', ''price'', ''km'', ''cm3'']" and v: "input_data n = Some PNone"
  have "\<And>s'. fst (validate_field \<lparr>fname = n, falias = n, ftype = T_int,
      fdefault = Required, allow_none = False\<rparr> input_data s') = Inl (n, NoneIsNotAllowedError)"
    using v field_none [of input_data "\<lparr>fname = n, falias = n, ftype = T_int,
      fdefault = Required, allow_none = False\<rparr>"] by simp
  from field_error_in_model [OF int_fields_of_CarBase [OF n] this]
  show "\<exists>errs. fst (CarBase input_data s) = Inl errs \<and> (n, NoneIsNotAllowedError) \<in> set errs"
    by (simp add: CarBase_def)
next
  fix n v e
  assume n: "n \<in> set [''year'', ''price'', ''km'', ''cm3'']"
    and v: "input_data n = Some v \<and> v \<noteq> PNone \<and> int_validator v = Inl e"
  have "\<And>s'. fst (validate_field \<lparr>fname = n, falias = n, ftype = T_int,
      fdefault = Required, allow_none = False\<rparr> input_data s') = Inl (n, IntegerError)"
    using v int_field_refused [of input_data "\<lparr>fname = n, falias = n, ftype = T_int,
      fdefault = Required, allow_none = False\<rparr>" v e] by simp
  from field_error_in_model [OF int_fields_of_CarBase [OF n] this]
  show "\<exists>errs. fst (CarBase input_data s) = Inl errs \<and> (n, IntegerError) \<in> set errs"
    by (simp add: CarBase_def)
next
  show "msg MissingError = Some ''field required''" by simp
next
  show "msg NoneIsNotAllowedError = Some ''none is not an allowed value''" by simp
next
  show "msg IntegerError = Some ''value is not a valid integer''" by simp
next
  show "int_validator (PList xs) = Inl IntegerError" by (simp add: int_validator_refuses)
next
  show "int_validator (PDict kvs) = Inl IntegerError" by (simp add: int_validator_refuses)
next
  show "int_validator (PObjectId oid) = Inl IntegerError" by (simp add: int_validator_refuses)
next
  assume "py_int w = None"
  then show "int_validator w = Inl IntegerError" by (rule int_validator_no_int)
next
  show "int_validator (PStr (lit ''20x0'')) = Inl IntegerError" by (rule int_validator_no_literal)
next
  assume "4300 < length t'"
  then show "int_validator (PStr t') = Inl IntegerError" by (rule int_validator_long_text)
next
  show "int_validator (PInt i) = Inr i" by (rule int_validator_int)
next
  show "int_validator (PBool q) = Inr (if q then 1 else 0)" by (rule int_validator_bool)
next
  assume "length (str_int i) \<le> 4300"
  then show "int_validator (PStr (str_int i)) = Inr i" by (rule int_validator_decimal_text)
next
  show "str_validator (PStr t') = Inr t'" by (simp add: str_validator_def)
next
  show "fst (CarBase input_data s) = Inr vals \<longleftrightarrow>
        (\<exists>x vb b vm m vy y vp p vk k vc c.
           vals = [(''id'', VObjectId x), (''brand'', VStr b), (''make'', VStr m),
                   (''year'', VInt y), (''price'', VInt p), (''km'', VInt k), (''cm3'', VInt c)]
           \<and> input_data ''brand'' = Some vb \<and> vb \<noteq> PNone \<and> str_validator vb = Inr b \<and> 3 \<le> length b
           \<and> input_data ''make'' = Some vm \<and> vm \<noteq> PNone \<and> str_validator vm = Inr m \<and> 3 \<le> length m
           \<and> input_data ''year'' = Some vy \<and> vy \<noteq> PNone \<and> int_validator vy = Inr y
           \<and> input_data ''price'' = Some vp \<and> vp \<noteq> PNone \<and> int_validator vp = Inr p
           \<and> input_data ''km'' = Some vk \<and> vk \<noteq> PNone \<and> int_validator vk = Inr k
           \<and> input_data ''cm3'' = Some vc \<and> vc \<noteq> PNone \<and> int_validator vc = Inr c
           \<and> (case input_data ''_id'' of
                 None \<Rightarrow> x = fst (generate s)
               | Some v \<Rightarrow> is_valid v s \<and> fst (ObjectId_init v s) = Inr x))"
    (is "?L \<longleftrightarrow> ?R")
  proof
    assume ?L
    then have "fst (validate_model CarBase_fields input_data s) = Inr vals"
      by (simp add: CarBase_def)
    from CarBase_Inr [OF this] show ?R by blast
  next
    assume ?R
    then obtain x vb b vm m vy y vp p vk k vc c where
      vals: "vals = [(''id'', VObjectId x), (''brand'', VStr b), (''make'', VStr m),
                   (''year'', VInt y), (''price'', VInt p), (''km'', VInt k), (''cm3'', VInt c)]"
      and b: "input_data ''brand'' = Some vb" "vb \<noteq> PNone" "str_validator vb = Inr b" "3 \<le> length b"
      and m: "input_data ''make'' = Some vm" "vm \<noteq> PNone" "str_validator vm = Inr m" "3 \<le> length m"
      and y: "input_data ''year'' = Some vy" "vy \<noteq> PNone" "int_validator vy = Inr y"
      and p: "input_data ''price'' = Some vp" "vp \<noteq> PNone" "int_validator vp = Inr p"
      and k: "input_data ''km'' = Some vk" "vk \<noteq> PNone" "int_validator vk = Inr k"
      and c: "input_data ''cm3'' = Some vc" "vc \<noteq> PNone" "int_validator vc = Inr c"
      and x: "case input_data ''_id'' of
                 None \<Rightarrow> x = fst (generate s)
               | Some v \<Rightarrow> is_valid v s \<and> fst (ObjectId_init v s) = Inr x"
      by blast
    from x have i: "input_data ''_id'' = None \<or> (\<exists>v. input_data ''_id'' = Some v \<and> is_valid v s)"
      by (cases "input_data ''_id''") simp_all
    from CarBase_ok [OF b m y p k c i] obtain x' where
      r: "fst (validate_model CarBase_fields input_data s) =
           Inr [(''id'', VObjectId x'), (''brand'', VStr b), (''make'', VStr m),
                (''year'', VInt y), (''price'', VInt p), (''km'', VInt k), (''cm3'', VInt c)]"
      and x': "case input_data ''_id'' of
                 None \<Rightarrow> x' = fst (generate s)
               | Some v \<Rightarrow> fst (ObjectId_init v s) = Inr x'"
      by blast
    from x x' have "x' = x" by (cases "input_data ''_id''") simp_all
    with r vals show ?L by (simp add: CarBase_def)
  qed
qed

theorem CarBase_validation_witness:
  "length (lit ''ab'') < 3
   \<and> (\<exists>errs. fst (CarBase [''brand'' \<mapsto> PStr (lit ''ab'')] \<lparr>clock = 0, random5 = 0, inc = 0\<rparr>) = Inl errs
         \<and> (''brand'', AnyStrMinLengthError 3) \<in> set errs)
   \<and> (\<exists>errs. fst (CarBase Map.empty \<lparr>clock = 0, random5 = 0, inc = 0\<rparr>) = Inl errs \<and> (''year'', MissingError) \<in> set errs)
   \<and> (\<exists>errs. fst (CarBase [''price'' \<mapsto> PNone] \<lparr>clock = 0, random5 = 0, inc = 0\<rparr>) = Inl errs
         \<and> (''price'', NoneIsNotAllowedError) \<in> set errs)
   \<and> int_validator (PList []) = Inl IntegerError
   \<and> (\<exists>errs. fst (CarBase [''km'' \<mapsto> PList []] \<lparr>clock = 0, random5 = 0, inc = 0\<rparr>) = Inl errs \<and> (''km'', IntegerError) \<in> set errs)
   \<and> str_int 1200 = lit ''1200''
   \<and> int_validator (PStr (lit ''1200'')) = Inr 1200
   \<and> fst (CarBase
        [''brand'' \<mapsto> PStr (lit ''Fiat''), ''make'' \<mapsto> PStr (lit ''Panda''), ''year'' \<mapsto> PInt 2020,
          ''price'' \<mapsto> PInt 4500, ''km'' \<mapsto> PBool True, ''cm3'' \<mapsto> PStr (lit ''1200'')] \<lparr>clock = 0, random5 = 0, inc = 0\<rparr>) =
           Inr [(''id'', VObjectId (fst (generate \<lparr>clock = 0, random5 = 0, inc = 0\<rparr>))),
                (''brand'', VStr (lit ''Fiat'')), (''make'', VStr (lit ''Panda'')),
                (''year'', VInt 2020), (''price'', VInt 4500), (''km'', VInt 1), (''cm3'', VInt 1200)]"
proof -
  have 1: "\<exists>errs. fst (CarBase [''brand'' \<mapsto> PStr (lit ''ab'')] \<lparr>clock = 0, random5 = 0, inc = 0\<rparr>) = Inl errs
         \<and> (''brand'', AnyStrMinLengthError 3) \<in> set errs"
    using CarBase_validation [of "[''brand'' \<mapsto> PStr (lit ''ab'')]"  "\<lparr>clock = 0, random5 = 0, inc = 0\<rparr>"] by simp
  have 2: "\<exists>errs. fst (CarBase Map.empty \<lparr>clock = 0, random5 = 0, inc = 0\<rparr>) = Inl errs \<and> (''year'', MissingError) \<in> set errs"
    using CarBase_validation [of Map.empty "\<lparr>clock = 0, random5 = 0, inc = 0\<rparr>"] by simp
  have 3: "\<exists>errs. fst (CarBase [''price'' \<mapsto> PNone] \<lparr>clock = 0, random5 = 0, inc = 0\<rparr>) = Inl errs
         \<and> (''price'', NoneIsNotAllowedError) \<in> set errs"
    using CarBase_validation [of "[''price'' \<mapsto> PNone]"  "\<lparr>clock = 0, random5 = 0, inc = 0\<rparr>"] by simp
  have l: "int_validator (PList []) = Inl IntegerError"
    using CarBase_validation [of Map.empty "\<lparr>clock = 0, random5 = 0, inc = 0\<rparr>" "[]"] by simp
  have 4: "\<exists>errs. fst (CarBase [''km'' \<mapsto> PList []] \<lparr>clock = 0, random5 = 0, inc = 0\<rparr>) = Inl errs \<and> (''km'', IntegerError) \<in> set errs"
    using CarBase_validation [of "[''km'' \<mapsto> PList []]"  "\<lparr>clock = 0, random5 = 0, inc = 0\<rparr>"] l by simp
  have d: "str_int 1200 = lit ''1200''"
    by (simp add: str_int_def str_nat.simps digit_char_def)
  have 5: "int_validator (PStr (lit ''1200'')) = Inr 1200"
    using CarBase_validation [of Map.empty "\<lparr>clock = 0, random5 = 0, inc = 0\<rparr>" "[]" "[]" "ObjectId []" PNone "[]" 1200] d
    by simp
  have b: "int_validator (PBool True) = Inr 1"
    using CarBase_validation [of Map.empty "\<lparr>clock = 0, random5 = 0, inc = 0\<rparr>" "[]" "[]" "ObjectId []" PNone "[]" 0 True]
    by simp
  have i: "\<And>i. int_validator (PInt i) = Inr i"
    using CarBase_validation [of Map.empty "\<lparr>clock = 0, random5 = 0, inc = 0\<rparr>" "[]" "[]" "ObjectId []" PNone "[]"]
    by simp
  have t: "\<And>t. str_validator (PStr t) = Inr t"
    using CarBase_validation [of Map.empty "\<lparr>clock = 0, random5 = 0, inc = 0\<rparr>" "[]" "[]" "ObjectId []" PNone]
    by simp
  have 6: "fst (CarBase
        [''brand'' \<mapsto> PStr (lit ''Fiat''), ''make'' \<mapsto> PStr (lit ''Panda''), ''year'' \<mapsto> PInt 2020,
          ''price'' \<mapsto> PInt 4500, ''km'' \<mapsto> PBool True, ''cm3'' \<mapsto> PStr (lit ''1200'')] \<lparr>clock = 0, random5 = 0, inc = 0\<rparr>) =
           Inr [(''id'', VObjectId (fst (generate \<lparr>clock = 0, random5 = 0, inc = 0\<rparr>))),
                (''brand'', VStr (lit ''Fiat'')), (''make'', VStr (lit ''Panda'')),
                (''year'', VInt 2020), (''price'', VInt 4500), (''km'', VInt 1), (''cm3'', VInt 1200)]"
  proof -
    have "fst (CarBase
        [''brand'' \<mapsto> PStr (lit ''Fiat''), ''make'' \<mapsto> PStr (lit ''Panda''), ''year'' \<mapsto> PInt 2020,
          ''price'' \<mapsto> PInt 4500, ''km'' \<mapsto> PBool True, ''cm3'' \<mapsto> PStr (lit ''1200'')] \<lparr>clock = 0, random5 = 0, inc = 0\<rparr>) =
           Inr [(''id'', VObjectId (fst (generate \<lparr>clock = 0, random5 = 0, inc = 0\<rparr>))),
                (''brand'', VStr (lit ''Fiat'')), (''make'', VStr (lit ''Panda'')),
                (''year'', VInt 2020), (''price'', VInt 4500), (''km'', VInt 1), (''cm3'', VInt 1200)]
      \<longleftrightarrow> (\<exists>x vb b vm m vy y vp p vk k vc c.
           [(''id'', VObjectId (fst (generate \<lparr>clock = 0, random5 = 0, inc = 0\<rparr>))),
                (''brand'', VStr (lit ''Fiat'')), (''make'', VStr (lit ''Panda'')),
                (''year'', VInt 2020), (''price'', VInt 4500), (''km'', VInt 1), (''cm3'', VInt 1200)]
             = [(''id'', VObjectId x), (''brand'', VStr b), (''make'', VStr m),
                   (''year'', VInt y), (''price'', VInt p), (''km'', VInt k), (''cm3'', VInt c)]
           \<and> Some (PStr (lit ''Fiat'')) = Some vb \<and> vb \<noteq> PNone \<and> str_validator vb = Inr b \<and> 3 \<le> length b
           \<and> Some (PStr (lit ''Panda'')) = Some vm \<and> vm \<noteq> PNone \<and> str_validator vm = Inr m \<and> 3 \<le> length m
           \<and> Some (PInt 2020) = Some vy \<and> vy \<noteq> PNone \<and> int_validator vy = Inr y
           \<and> Some (PInt 4500) = Some vp \<and> vp \<noteq> PNone \<and> int_validator vp = Inr p
           \<and> Some (PBool True) = Some vk \<and> vk \<noteq> PNone \<and> int_validator vk = Inr k
           \<and> Some (PStr (lit ''1200'')) = Some vc \<and> vc \<noteq> PNone \<and> int_validator vc = Inr c
           \<and> x = fst (generate \<lparr>clock = 0, random5 = 0, inc = 0\<rparr>))"
      using CarBase_validation [of "[''brand'' \<mapsto> PStr (lit ''Fiat''), ''make'' \<mapsto> PStr (lit ''Panda''), ''year'' \<mapsto> PInt 2020,
          ''price'' \<mapsto> PInt 4500, ''km'' \<mapsto> PBool True, ''cm3'' \<mapsto> PStr (lit ''1200'')]"
          "\<lparr>clock = 0, random5 = 0, inc = 0\<rparr>" "[]" "[]" "ObjectId []" PNone "[]" 0 True
          "[(''id'', VObjectId (fst (generate \<lparr>clock = 0, random5 = 0, inc = 0\<rparr>))),
                (''brand'', VStr (lit ''Fiat'')), (''make'', VStr (lit ''Panda'')),
                (''year'', VInt 2020), (''price'', VInt 4500), (''km'', VInt 1), (''cm3'', VInt 1200)]"]
      by simp
    moreover have "3 \<le> length (lit ''Fiat'')" "3 \<le> length (lit ''Panda'')" by simp_all
    ultimately show ?thesis
      using 5 b i [of 2020] i [of 4500] t [of "lit ''Fiat''"] t [of "lit ''Panda''"] by blast
  qed
  from 1 2 3 l 4 d 5 6 show ?thesis by simp
qed

text \<open>
  The claim as stated fails in two places: a numeric field that is not an integer but
  that the validator converts (here the text \<open>2020\<close>) is accepted and stored as the
  integer, and an input with two good names and four integers is refused when its
  \<open>_id\<close> is not a valid identifier.
\<close>

theorem CarBase_validation_counterexample:
  "fst (CarBase [''brand'' \<mapsto> PStr (lit ''Fiat''), ''make'' \<mapsto> PStr (lit ''Panda''), ''year'' \<mapsto> PStr (lit ''2020''),
          ''price'' \<mapsto> PInt 4500, ''km'' \<mapsto> PInt 90000, ''cm3'' \<mapsto> PInt 1200] \<lparr>clock = 0, random5 = 0, inc = 0\<rparr>)
     = Inr [(''id'', VObjectId (fst (generate \<lparr>clock = 0, random5 = 0, inc = 0\<rparr>))),
            (''brand'', VStr (lit ''Fiat'')), (''make'', VStr (lit ''Panda'')), (''year'', VInt 2020),
            (''price'', VInt 4500), (''km'', VInt 90000), (''cm3'', VInt 1200)]
   \<and> fst (CarBase [''_id'' \<mapsto> PStr (lit ''xyz''), ''brand'' \<mapsto> PStr (lit ''Fiat''), ''make'' \<mapsto> PStr (lit ''Panda''),
          ''year'' \<mapsto> PInt 2020, ''price'' \<mapsto> PInt 4500, ''km'' \<mapsto> PInt 90000, ''cm3'' \<mapsto> PInt 1200] \<lparr>clock = 0, random5 = 0, inc = 0\<rparr>)
         = Inl [(''_id'', ValueError ''Invalid objectid'')]"
  using year_text_accepted bad_id_refused by simp


subsection \<open>The persisted shape of a car\<close>

lemma parse_json_validated:
  assumes "fst (parse_json fs j s) = Inr (Inr r)"
  shows "\<exists>d. fst (validate_model fs d s) = Inr r"
proof -
  from assms obtain kvs where "fst (validate_model fs (kwargs kvs) s) = Inr r"
    by (auto simp add: parse_json_def parse_obj_def split: option.splits if_splits)
  then show ?thesis by blast
qed

lemma loads_error_car:
  "list_all (\<lambda>i. length (str_nat (nat \<bar>i\<bar>)) \<le> 4300) [y, p, k, c] \<Longrightarrow>
     loads_error (JObject ((lit ''_id'', JString t) # [(lit ''brand'', JString b), (lit ''make'', JString m),
        (lit ''year'', JInt y), (lit ''price'', JInt p), (lit ''km'', JInt k), (lit ''cm3'', JInt c)])) = None
     \<and> loads_error (JObject ((lit ''id'', JString t) # [(lit ''brand'', JString b), (lit ''make'', JString m),
        (lit ''year'', JInt y), (lit ''price'', JInt p), (lit ''km'', JInt k), (lit ''cm3'', JInt c)])) = None
     \<and> loads_error (JObject [(lit ''brand'', JString b), (lit ''make'', JString m),
        (lit ''year'', JInt y), (lit ''price'', JInt p), (lit ''km'', JInt k), (lit ''cm3'', JInt c)]) = None"
  by (simp add: loads_error_def)

lemma parse_json_car:
  assumes "list_all (\<lambda>i. length (str_nat (nat \<bar>i\<bar>)) \<le> 4300) [y, p, k, c]"
  shows "parse_json fs (JObject [(lit ''brand'', JString b), (lit ''make'', JString m),
        (lit ''year'', JInt y), (lit ''price'', JInt p), (lit ''km'', JInt k), (lit ''cm3'', JInt c)]) s
     = (Inr (fst (validate_model fs
          (kwargs [(PStr (lit ''brand''), PStr b), (PStr (lit ''make''), PStr m),
                   (PStr (lit ''year''), PInt y), (PStr (lit ''price''), PInt p),
                   (PStr (lit ''km''), PInt k), (PStr (lit ''cm3''), PInt c)]) s)),
        snd (validate_model fs
          (kwargs [(PStr (lit ''brand''), PStr b), (PStr (lit ''make''), PStr m),
                   (PStr (lit ''year''), PInt y), (PStr (lit ''price''), PInt p),
                   (PStr (lit ''km''), PInt k), (PStr (lit ''cm3''), PInt c)]) s))"
  using loads_error_car [OF assms, of "[]" b m]
  by (simp add: parse_json_def parse_obj_def keyword_def)

lemma kwargs_car:
  "kwargs [(PStr (lit ''brand''), vb), (PStr (lit ''make''), vm), (PStr (lit ''year''), vy),
           (PStr (lit ''price''), vp), (PStr (lit ''km''), vk), (PStr (lit ''cm3''), vc)] ''_id'' = None
   \<and> kwargs [(PStr (lit ''brand''), vb), (PStr (lit ''make''), vm), (PStr (lit ''year''), vy),
           (PStr (lit ''price''), vp), (PStr (lit ''km''), vk), (PStr (lit ''cm3''), vc)] ''brand'' = Some vb
   \<and> kwargs [(PStr (lit ''brand''), vb), (PStr (lit ''make''), vm), (PStr (lit ''year''), vy),
           (PStr (lit ''price''), vp), (PStr (lit ''km''), vk), (PStr (lit ''cm3''), vc)] ''make'' = Some vm
   \<and> kwargs [(PStr (lit ''brand''), vb), (PStr (lit ''make''), vm), (PStr (lit ''year''), vy),
           (PStr (lit ''price''), vp), (PStr (lit ''km''), vk), (PStr (lit ''cm3''), vc)] ''year'' = Some vy
   \<and> kwargs [(PStr (lit ''brand''), vb), (PStr (lit ''make''), vm), (PStr (lit ''year''), vy),
           (PStr (lit ''price''), vp), (PStr (lit ''km''), vk), (PStr (lit ''cm3''), vc)] ''price'' = Some vp
   \<and> kwargs [(PStr (lit ''brand''), vb), (PStr (lit ''make''), vm), (PStr (lit ''year''), vy),
           (PStr (lit ''price''), vp), (PStr (lit ''km''), vk), (PStr (lit ''cm3''), vc)] ''km'' = Some vk
   \<and> kwargs [(PStr (lit ''brand''), vb), (PStr (lit ''make''), vm), (PStr (lit ''year''), vy),
           (PStr (lit ''price''), vp), (PStr (lit ''km''), vk), (PStr (lit ''cm3''), vc)] ''cm3'' = Some vc"
  by (simp add: kwargs_def)

lemma parse_json_car_ok:
  assumes "3 \<le> length b" and "3 \<le> length m"
    and "list_all (\<lambda>i. length (str_nat (nat \<bar>i\<bar>)) \<le> 4300) [y, p, k, c]"
  shows "fst (parse_json CarBase_fields (JObject [(lit ''brand'', JString b), (lit ''make'', JString m),
        (lit ''year'', JInt y), (lit ''price'', JInt p), (lit ''km'', JInt k), (lit ''cm3'', JInt c)]) s)
     = Inr (Inr [(''id'', VObjectId (fst (generate s))), (''brand'', VStr b), (''make'', VStr m),
                 (''year'', VInt y), (''price'', VInt p), (''km'', VInt k), (''cm3'', VInt c)])"
proof -
  let ?d = "kwargs [(PStr (lit ''brand''), PStr b), (PStr (lit ''make''), PStr m),
                   (PStr (lit ''year''), PInt y), (PStr (lit ''price''), PInt p),
                   (PStr (lit ''km''), PInt k), (PStr (lit ''cm3''), PInt c)]"
  note kw = kwargs_car [of "PStr b" "PStr m" "PInt y" "PInt p" "PInt k" "PInt c"]
  from kw have i: "?d ''_id'' = None \<or> (\<exists>v. ?d ''_id'' = Some v \<and> is_valid v s)" by blast
  have "\<exists>x. fst (validate_model CarBase_fields ?d s) =
           Inr [(''id'', VObjectId x), (''brand'', VStr b), (''make'', VStr m),
                (''year'', VInt y), (''price'', VInt p), (''km'', VInt k), (''cm3'', VInt c)]
          \<and> (case ?d ''_id'' of
                 None \<Rightarrow> x = fst (generate s)
               | Some v \<Rightarrow> fst (ObjectId_init v s) = Inr x)"
    using kw assms(1,2)
    by (intro CarBase_ok [of ?d "PStr b" b "PStr m" m "PInt y" y "PInt p" p "PInt k" k "PInt c" c s] i)
      (simp_all add: str_validator_def int_validator_int)
  with kw have "fst (validate_model CarBase_fields ?d s) =
           Inr [(''id'', VObjectId (fst (generate s))), (''brand'', VStr b), (''make'', VStr m),
                (''year'', VInt y), (''price'', VInt p), (''km'', VInt k), (''cm3'', VInt c)]"
    by auto
  with parse_json_car [OF assms(3), of CarBase_fields b m s] show ?thesis by simp
qed

text \<open>
  A document that is an array of pairs parses as the object with those members, since
  \<open>parse_obj\<close> applies \<open>dict\<close> to what is no dict; \<open>null\<close> is refused with the TypeError
  at \<open>__root__\<close>.
\<close>

lemma dict_of_pairs:
  "those (map (\<lambda>x. case update_element x of
                        Some (k, v) \<Rightarrow> if hashable k then Some (k, v) else None
                      | None \<Rightarrow> None)
        (map loads (map (\<lambda>(k, v). JArray [JString k, v]) kvs)))
     = Some (map (\<lambda>(k, v). (PStr k, v)) (map (map_prod id loads) kvs))"
  by (induction kvs) (simp_all add: case_prod_unfold)

lemma numbers_pairs:
  "concat (map numbers (map (\<lambda>(k, v). JArray [JString k, v]) kvs))
     = concat (map snd (map (map_prod id numbers) kvs))"
  by (induction kvs) (simp_all add: case_prod_unfold)

lemma loads_error_pairs:
  "loads_error (JArray (map (\<lambda>(k, v). JArray [JString k, v]) kvs)) = loads_error (JObject kvs)"
  using numbers_pairs [of kvs] by (simp add: loads_error_def)

lemma parse_obj_pairs:
  "parse_obj fs (loads (JArray (map (\<lambda>(k, v). JArray [JString k, v]) kvs))) s
     = parse_obj fs (loads (JObject kvs)) s"
  using dict_of_pairs [of kvs] by (simp add: parse_obj_def)

lemma parse_json_pairs:
  "parse_json fs (JArray (map (\<lambda>(k, v). JArray [JString k, v]) kvs)) s = parse_json fs (JObject kvs) s"
  unfolding parse_json_def loads_error_pairs parse_obj_pairs ..

lemma parse_json_null: "parse_json fs JNull s = (Inr (Inl [(''__root__'', TypeError)]), s)"
  by (simp add: parse_json_def parse_obj_def loads_error_def)

lemma setattr_field:
  "n \<in> set (map fname fs) \<Longrightarrow> setattr cls fs inst n v = Inr (dict_set n v inst)"
  by (simp add: setattr_def)

lemma CarDB_Fiat:
  "fst (CarDB [''brand'' \<mapsto> PStr (lit ''Fiat''), ''make'' \<mapsto> PStr (lit ''Panda''), ''year'' \<mapsto> PInt 2020,
          ''price'' \<mapsto> PInt 4500, ''km'' \<mapsto> PInt 90000, ''cm3'' \<mapsto> PInt 1200] s)
     = Inr [(''id'', VObjectId (fst (generate s))),
            (''brand'', VStr (lit ''Fiat'')), (''make'', VStr (lit ''Panda'')),
            (''year'', VInt 2020), (''price'', VInt 4500), (''km'', VInt 90000), (''cm3'', VInt 1200)]"
  using CarBase_ok [of  "[''brand'' \<mapsto> PStr (lit ''Fiat''), ''make'' \<mapsto> PStr (lit ''Panda''), ''year'' \<mapsto> PInt 2020,
          ''price'' \<mapsto> PInt 4500, ''km'' \<mapsto> PInt 90000, ''cm3'' \<mapsto> PInt 1200]" "PStr (lit ''Fiat'')" "lit ''Fiat''" "PStr (lit ''Panda'')" "lit ''Panda''"
        "PInt 2020" 2020 "PInt 4500" 4500 "PInt 90000" 90000 "PInt 1200" 1200 s]
  by (auto simp add: CarDB_def CarDB_fields_CarBase str_validator_def int_validator_int)

lemma digits_small:
  "length (str_nat 2020) \<le> 4300 \<and> length (str_nat 4500) \<le> 4300
   \<and> length (str_nat 90000) \<le> 4300 \<and> length (str_nat 1200) \<le> 4300"
  by (simp add: str_nat.simps)

text \<open>
  Claim C8, as the code has it. Every \<open>CarDB\<close> that validation produces, by the
  constructor from keyword arguments or by parsing a JSON document, has exactly the
  seven fields, with \<open>brand\<close> and \<open>make\<close> text of length at least 3 (so not empty) and
  \<open>year\<close>, \<open>price\<close>, \<open>km\<close>, \<open>cm3\<close> integers; and a document with such members (its
  integers of at most 4300 digits, which is what the decoder reads) does parse to the
  record with these values. Assignment to a field of an instance is not validated (the
  \<open>Config\<close> of the models sets \<open>json_encoders\<close> only): the value is stored as given.
\<close>

theorem CarDB_invariant:
  "(fst (CarDB input_data s) = Inr r \<or> fst (parse_json CarDB_fields j s) = Inr (Inr r) \<longrightarrow>
     (\<exists>x b m y p k c.
        r = [(''id'', VObjectId x), (''brand'', VStr b), (''make'', VStr m),
             (''year'', VInt y), (''price'', VInt p), (''km'', VInt k), (''cm3'', VInt c)]
        \<and> 3 \<le> length b \<and> 3 \<le> length m \<and> b \<noteq> [] \<and> m \<noteq> []))
   \<and> (3 \<le> length b' \<and> 3 \<le> length m'
        \<and> list_all (\<lambda>i. length (str_nat (nat \<bar>i\<bar>)) \<le> 4300) [y', p', k', c'] \<longrightarrow>
        fst (parse_json CarDB_fields (JObject [(lit ''brand'', JString b'), (lit ''make'', JString m'),
               (lit ''year'', JInt y'), (lit ''price'', JInt p'), (lit ''km'', JInt k'), (lit ''cm3'', JInt c')]) s)
          = Inr (Inr [(''id'', VObjectId (fst (generate s))), (''brand'', VStr b'), (''make'', VStr m'),
                      (''year'', VInt y'), (''price'', VInt p'), (''km'', VInt k'), (''cm3'', VInt c')]))
   \<and> (n \<in> set (map fname CarDB_fields) \<longrightarrow>
        setattr ''CarDB'' CarDB_fields inst n v = Inr (dict_set n v inst))"
proof (intro conjI impI)
  assume "fst (CarDB input_data s) = Inr r \<or> fst (parse_json CarDB_fields j s) = Inr (Inr r)"
  then obtain d where "fst (validate_model CarBase_fields d s) = Inr r"
    using parse_json_validated [of CarDB_fields j s r]
    by (auto simp add: CarDB_def CarDB_fields_CarBase)
  from CarBase_Inr [OF this]
  show "\<exists>x b m y p k c.
        r = [(''id'', VObjectId x), (''brand'', VStr b), (''make'', VStr m),
             (''year'', VInt y), (''price'', VInt p), (''km'', VInt k), (''cm3'', VInt c)]
        \<and> 3 \<le> length b \<and> 3 \<le> length m \<and> b \<noteq> [] \<and> m \<noteq> []"
    by fastforce
next
  assume "3 \<le> length b' \<and> 3 \<le> length m'
        \<and> list_all (\<lambda>i. length (str_nat (nat \<bar>i\<bar>)) \<le> 4300) [y', p', k', c']"
  then show "fst (parse_json CarDB_fields (JObject [(lit ''brand'', JString b'), (lit ''make'', JString m'),
               (lit ''year'', JInt y'), (lit ''price'', JInt p'), (lit ''km'', JInt k'), (lit ''cm3'', JInt c')]) s)
          = Inr (Inr [(''id'', VObjectId (fst (generate s))), (''brand'', VStr b'), (''make'', VStr m'),
                      (''year'', VInt y'), (''price'', VInt p'), (''km'', VInt k'), (''cm3'', VInt c')])"
    using parse_json_car_ok [of b' m' y' p' k' c' s] by (simp add: CarDB_fields_CarBase)
next
  assume "n \<in> set (map fname CarDB_fields)"
  then show "setattr ''CarDB'' CarDB_fields inst n v = Inr (dict_set n v inst)"
    by (rule setattr_field)
qed

theorem CarDB_invariant_witness:
  "fst (CarDB
        [''brand'' \<mapsto> PStr (lit ''Fiat''), ''make'' \<mapsto> PStr (lit ''Panda''), ''year'' \<mapsto> PInt 2020,
          ''price'' \<mapsto> PInt 4500, ''km'' \<mapsto> PInt 90000, ''cm3'' \<mapsto> PInt 1200] \<lparr>clock = 0, random5 = 0, inc = 0\<rparr>) =
           Inr [(''id'', VObjectId (fst (generate \<lparr>clock = 0, random5 = 0, inc = 0\<rparr>))),
                (''brand'', VStr (lit ''Fiat'')), (''make'', VStr (lit ''Panda'')),
                (''year'', VInt 2020), (''price'', VInt 4500), (''km'', VInt 90000), (''cm3'', VInt 1200)]
   \<and> 3 \<le> length (lit ''Fiat'') \<and> 3 \<le> length (lit ''Panda'')
   \<and> list_all (\<lambda>i. length (str_nat (nat \<bar>i\<bar>)) \<le> 4300) [2020, 4500, 90000, 1200]
   \<and> fst (parse_json CarDB_fields (JObject [(lit ''brand'', JString (lit ''Fiat'')), (lit ''make'', JString (lit ''Panda'')),
               (lit ''year'', JInt 2020), (lit ''price'', JInt 4500), (lit ''km'', JInt 90000), (lit ''cm3'', JInt 1200)])
             \<lparr>clock = 0, random5 = 0, inc = 0\<rparr>)
          = Inr (Inr [(''id'', VObjectId (fst (generate \<lparr>clock = 0, random5 = 0, inc = 0\<rparr>))),
                      (''brand'', VStr (lit ''Fiat'')), (''make'', VStr (lit ''Panda'')),
                      (''year'', VInt 2020), (''price'', VInt 4500), (''km'', VInt 90000), (''cm3'', VInt 1200)])
   \<and> ''brand'' \<in> set (map fname CarDB_fields)
   \<and> setattr ''CarDB'' CarDB_fields [(''brand'', VStr (lit ''Fiat''))] ''brand'' (VStr (lit ''Seat''))
       = Inr [(''brand'', VStr (lit ''Seat''))]"
proof -
  have n: "''brand'' \<in> set (map fname CarDB_fields)"
    by (simp add: CarDB_fields_CarBase CarBase_fields_list)
  have d: "list_all (\<lambda>i. length (str_nat (nat \<bar>i\<bar>)) \<le> 4300) [2020, 4500, 90000, 1200]"
    using digits_small by simp
  note t = CarDB_invariant [of "[''brand'' \<mapsto> PStr (lit ''Fiat''), ''make'' \<mapsto> PStr (lit ''Panda''), ''year'' \<mapsto> PInt 2020,
          ''price'' \<mapsto> PInt 4500, ''km'' \<mapsto> PInt 90000, ''cm3'' \<mapsto> PInt 1200]" "\<lparr>clock = 0, random5 = 0, inc = 0\<rparr>"
      "[(''id'', VObjectId (fst (generate \<lparr>clock = 0, random5 = 0, inc = 0\<rparr>))),
                (''brand'', VStr (lit ''Fiat'')), (''make'', VStr (lit ''Panda'')),
                (''year'', VInt 2020), (''price'', VInt 4500), (''km'', VInt 90000), (''cm3'', VInt 1200)]"
      JNull "lit ''Fiat''" "lit ''Panda''" 2020 4500 90000 1200 "''brand''"
      "[(''brand'', VStr (lit ''Fiat''))]" "VStr (lit ''Seat'')"]
  have 1: "fst (parse_json CarDB_fields (JObject [(lit ''brand'', JString (lit ''Fiat'')), (lit ''make'', JString (lit ''Panda'')),
               (lit ''year'', JInt 2020), (lit ''price'', JInt 4500), (lit ''km'', JInt 90000), (lit ''cm3'', JInt 1200)])
             \<lparr>clock = 0, random5 = 0, inc = 0\<rparr>)
          = Inr (Inr [(''id'', VObjectId (fst (generate \<lparr>clock = 0, random5 = 0, inc = 0\<rparr>))),
                      (''brand'', VStr (lit ''Fiat'')), (''make'', VStr (lit ''Panda'')),
                      (''year'', VInt 2020), (''price'', VInt 4500), (''km'', VInt 90000), (''cm3'', VInt 1200)])"
    using t d by simp
  have 2: "setattr ''CarDB'' CarDB_fields [(''brand'', VStr (lit ''Fiat''))] ''brand'' (VStr (lit ''Seat''))
       = Inr [(''brand'', VStr (lit ''Seat''))]"
    using t n by (simp add: dict_set_def)
  from CarDB_Fiat [of "\<lparr>clock = 0, random5 = 0, inc = 0\<rparr>"] 1 2 n d show ?thesis by simp
qed

text \<open>
  The claim as stated says that no operation produces a \<open>CarDB\<close> that violates the
  invariant. Assigning to \<open>brand\<close> of a validated instance does: the instance then has a
  \<open>brand\<close> of one character.
\<close>

theorem CarDB_invariant_counterexample:
  "fst (CarDB
        [''brand'' \<mapsto> PStr (lit ''Fiat''), ''make'' \<mapsto> PStr (lit ''Panda''), ''year'' \<mapsto> PInt 2020,
          ''price'' \<mapsto> PInt 4500, ''km'' \<mapsto> PInt 90000, ''cm3'' \<mapsto> PInt 1200] \<lparr>clock = 0, random5 = 0, inc = 0\<rparr>) =
           Inr [(''id'', VObjectId (fst (generate \<lparr>clock = 0, random5 = 0, inc = 0\<rparr>))),
                (''brand'', VStr (lit ''Fiat'')), (''make'', VStr (lit ''Panda'')),
                (''year'', VInt 2020), (''price'', VInt 4500), (''km'', VInt 90000), (''cm3'', VInt 1200)]
   \<and> setattr ''CarDB'' CarDB_fields
         [(''id'', VObjectId (fst (generate \<lparr>clock = 0, random5 = 0, inc = 0\<rparr>))),
          (''brand'', VStr (lit ''Fiat'')), (''make'', VStr (lit ''Panda'')),
          (''year'', VInt 2020), (''price'', VInt 4500), (''km'', VInt 90000), (''cm3'', VInt 1200)]
         ''brand'' (VStr (lit ''x''))
       = Inr [(''id'', VObjectId (fst (generate \<lparr>clock = 0, random5 = 0, inc = 0\<rparr>))),
              (''brand'', VStr (lit ''x'')), (''make'', VStr (lit ''Panda'')),
              (''year'', VInt 2020), (''price'', VInt 4500), (''km'', VInt 90000), (''cm3'', VInt 1200)]
   \<and> length (lit ''x'') < 3"
  using CarDB_Fiat [of "\<lparr>clock = 0, random5 = 0, inc = 0\<rparr>"]
  by (simp add: setattr_def dict_set_def CarDB_fields_CarBase CarBase_fields_list)

text \<open>
  Claim C9. \<open>CarDB\<close> has the fields of \<open>CarBase\<close> and no other: constructing and
  parsing give the same result for both classes on every input (the same errors or the
  same values), and an instance is rendered to the same JSON.
\<close>

theorem CarDB_same_as_CarBase:
  "CarDB_fields = CarBase_fields
   \<and> map fname CarDB_fields = [''id'', ''brand'', ''make'', ''year'', ''price'', ''km'', ''cm3'']
   \<and> CarDB input_data s = CarBase input_data s
   \<and> parse_json CarDB_fields j s = parse_json CarBase_fields j s
   \<and> to_json CarDB_fields by_alias r = to_json CarBase_fields by_alias r"
  by (simp add: CarDB_def CarBase_def CarDB_fields_CarBase) (simp add: CarBase_fields_list)


subsection \<open>The update shape\<close>













subsection \<open>The identifier of the base document shape\<close>




















subsection \<open>Rendering a car to JSON and parsing it back\<close>



























section \<open>Properties of the bootstrap\<close>


lemma run_append:
  "run (cs @ [c]) st =
     (case run cs st of
        Inl e \<Rightarrow> Inl e
      | Inr st' \<Rightarrow> (case c st' of Inl e \<Rightarrow> Inl (e, st') | Inr st'' \<Rightarrow> Inr st''))"
  by (induction cs arbitrary: st) (auto split: sum.splits)

lemma config_absent:
  "environ opt = None \<Longrightarrow> repository opt = None \<Longrightarrow>
     config environ repository opt = Inl (UndefinedValueError opt)"
  by (simp add: config_def)

lemma config_present:
  "environ opt \<noteq> None \<or> repository opt \<noteq> None \<Longrightarrow>
     \<exists>v. config environ repository opt = Inr v \<and> (environ opt = Some v \<or> (environ opt = None \<and> repository opt = Some v))"
  by (auto simp add: config_def split: option.splits)

lemma run_main_statements:
  "config environ repository ''DB_URL'' = Inr url \<Longrightarrow>
   config environ repository ''DB_NAME'' = Inr name \<Longrightarrow>
     run (main_statements environ repository) module_start = Inr (bootstrapped url name)"
  by (simp add: main_statements_def assign_config_def module_start_def assign_def FastAPI_def
      add_middleware_def on_event_def include_router_def bootstrapped_def numeral_2_eq_2)

lemma run_main_no_url:
  "config environ repository ''DB_URL'' = Inl e \<Longrightarrow>
     run (main_statements environ repository) module_start = Inl (e, module_start)"
  by (simp add: main_statements_def assign_config_def)

lemma run_main_no_name:
  "config environ repository ''DB_URL'' = Inr url \<Longrightarrow>
   config environ repository ''DB_NAME'' = Inl e \<Longrightarrow>
     run (main_statements environ repository) module_start
       = Inl (e, assign ''DB_URL'' (OStr url) module_start)"
  by (simp add: main_statements_def assign_config_def)

lemma cors_bootstrapped:
  "cors_policies (bootstrapped url name) =
     [Some \<lparr>policy_origins = [''*''], policy_credentials = True,
            policy_methods = [''*''], policy_headers = [''*'']\<rparr>]"
  by (simp add: cors_policies_def bootstrapped_def deref_def)

lemma cors_reassigned:
  "reassign_origins (bootstrapped url name) = Inr st' \<Longrightarrow>
   cors_policies st' =
     [Some \<lparr>policy_origins = [''*''], policy_credentials = True,
            policy_methods = [''*''], policy_headers = [''*'']\<rparr>]
   \<and> (case globals st' ''origins'' of
         Some r \<Rightarrow> deref st' r = Some (OList [''http://localhost'', ''http://localhost:8080'',
               ''http://localhost:3000'', ''http://localhost:8000''])
       | None \<Rightarrow> False)"
  by (auto simp add: reassign_origins_def assign_def cors_policies_def bootstrapped_def deref_def)


text \<open>
  Claim C6. When the bootstrap runs (both configuration values are found), the CORS
  middleware accepts any origin (\<open>*\<close>), allows credentials, all methods and all
  headers. The list of localhost addresses bound to \<open>origins\<close> after the middleware was
  attached does not change the policy: it is the same with the reassignment (the whole
  module) and without it (the statements up to line 34), although \<open>origins\<close> then names
  the new list.
\<close>

theorem cors_policy_allows_all:
  "config environ repository ''DB_URL'' = Inr url \<and> config environ repository ''DB_NAME'' = Inr name \<longrightarrow>
     (\<exists>st st'.
        run (main_statements environ repository) module_start = Inr st
        \<and> main_module environ repository = Inr st'
        \<and> cors_policies st' = cors_policies st
        \<and> cors_policies st' =
            [Some \<lparr>policy_origins = [''*''], policy_credentials = True,
                   policy_methods = [''*''], policy_headers = [''*'']\<rparr>]
        \<and> allow_all_origins \<lparr>policy_origins = [''*''], policy_credentials = True,
                   policy_methods = [''*''], policy_headers = [''*'']\<rparr>
        \<and> (\<exists>r. globals st' ''origins'' = Some r \<and>
               deref st' r = Some (OList [''http://localhost'', ''http://localhost:8080'',
                 ''http://localhost:3000'', ''http://localhost:8000''])))"
proof
  assume c: "config environ repository ''DB_URL'' = Inr url \<and> config environ repository ''DB_NAME'' = Inr name"
  then have r: "run (main_statements environ repository) module_start = Inr (bootstrapped url name)"
    by (simp add: run_main_statements)
  obtain st' where s: "reassign_origins (bootstrapped url name) = Inr st'"
    by (simp add: reassign_origins_def)
  from r s have m: "main_module environ repository = Inr st'"
    by (simp add: main_module_def run_append)
  from cors_reassigned [OF s] obtain q where
    "globals st' ''origins'' = Some q"
    "deref st' q = Some (OList [''http://localhost'', ''http://localhost:8080'',
                 ''http://localhost:3000'', ''http://localhost:8000''])"
    by (auto split: option.splits)
  with r m cors_reassigned [OF s] cors_bootstrapped [of url name]
  show "\<exists>st st'.
        run (main_statements environ repository) module_start = Inr st
        \<and> main_module environ repository = Inr st'
        \<and> cors_policies st' = cors_policies st
        \<and> cors_policies st' =
            [Some \<lparr>policy_origins = [''*''], policy_credentials = True,
                   policy_methods = [''*''], policy_headers = [''*'']\<rparr>]
        \<and> allow_all_origins \<lparr>policy_origins = [''*''], policy_credentials = True,
                   policy_methods = [''*''], policy_headers = [''*'']\<rparr>
        \<and> (\<exists>r. globals st' ''origins'' = Some r \<and>
               deref st' r = Some (OList [''http://localhost'', ''http://localhost:8080'',
                 ''http://localhost:3000'', ''http://localhost:8000'']))"
    by (auto simp add: allow_all_origins_def)
qed

theorem cors_policy_allows_all_witness:
  "config [''DB_URL'' \<mapsto> ''mongodb://localhost'', ''DB_NAME'' \<mapsto> ''cars''] Map.empty ''DB_URL''
      = Inr ''mongodb://localhost''
   \<and> config [''DB_URL'' \<mapsto> ''mongodb://localhost'', ''DB_NAME'' \<mapsto> ''cars''] Map.empty ''DB_NAME''
      = Inr ''cars''
   \<and> (\<exists>st'. main_module [''DB_URL'' \<mapsto> ''mongodb://localhost'', ''DB_NAME'' \<mapsto> ''cars''] Map.empty = Inr st'
        \<and> cors_policies st' =
            [Some \<lparr>policy_origins = [''*''], policy_credentials = True,
                   policy_methods = [''*''], policy_headers = [''*'']\<rparr>])"
proof -
  have a: "config [''DB_URL'' \<mapsto> ''mongodb://localhost'', ''DB_NAME'' \<mapsto> ''cars''] Map.empty ''DB_URL''
      = Inr ''mongodb://localhost''
   \<and> config [''DB_URL'' \<mapsto> ''mongodb://localhost'', ''DB_NAME'' \<mapsto> ''cars''] Map.empty ''DB_NAME''
      = Inr ''cars''"
    by (simp add: config_def)
  with cors_policy_allows_all [of "[''DB_URL'' \<mapsto> ''mongodb://localhost'', ''DB_NAME'' \<mapsto> ''cars'']"
      Map.empty "''mongodb://localhost''" "''cars''"]
  show ?thesis by blast
qed

text \<open>
  Claim C7. If \<open>DB_URL\<close> or \<open>DB_NAME\<close> is found neither in the environment nor in the
  settings file, the module raises UndefinedValueError for that name while it is
  initialised, before the application exists (so no route is mounted and nothing is
  served). If both are found, the initialisation runs through, the names are bound to
  the configured texts and the router of the cars is mounted.
\<close>

theorem missing_configuration_is_fatal:
  "(environ ''DB_URL'' = None \<and> repository ''DB_URL'' = None \<longrightarrow>
      (\<exists>st. main_module environ repository = Inl (UndefinedValueError ''DB_URL'', st)
         \<and> app st = None))
   \<and> ((environ ''DB_URL'' \<noteq> None \<or> repository ''DB_URL'' \<noteq> None)
        \<and> environ ''DB_NAME'' = None \<and> repository ''DB_NAME'' = None \<longrightarrow>
      (\<exists>st. main_module environ repository = Inl (UndefinedValueError ''DB_NAME'', st)
         \<and> app st = None))
   \<and> ((environ ''DB_URL'' \<noteq> None \<or> repository ''DB_URL'' \<noteq> None)
        \<and> (environ ''DB_NAME'' \<noteq> None \<or> repository ''DB_NAME'' \<noteq> None) \<longrightarrow>
      (\<exists>st a url name. main_module environ repository = Inr st
         \<and> app st = Some a \<and> routers a = [(''cars_router'', ''/cars'', [''cars''])]
         \<and> config environ repository ''DB_URL'' = Inr url
         \<and> config environ repository ''DB_NAME'' = Inr name
         \<and> (\<exists>r. globals st ''DB_URL'' = Some r \<and> deref st r = Some (OStr url))
         \<and> (\<exists>r. globals st ''DB_NAME'' = Some r \<and> deref st r = Some (OStr name))))"
proof (intro conjI impI)
  assume "environ ''DB_URL'' = None \<and> repository ''DB_URL'' = None"
  then have "config environ repository ''DB_URL'' = Inl (UndefinedValueError ''DB_URL'')"
    by (simp add: config_absent)
  then have "main_module environ repository = Inl (UndefinedValueError ''DB_URL'', module_start)"
    by (simp add: main_module_def run_append run_main_no_url)
  then show "\<exists>st. main_module environ repository = Inl (UndefinedValueError ''DB_URL'', st) \<and> app st = None"
    by (simp add: module_start_def)
next
  assume h: "(environ ''DB_URL'' \<noteq> None \<or> repository ''DB_URL'' \<noteq> None)
        \<and> environ ''DB_NAME'' = None \<and> repository ''DB_NAME'' = None"
  then obtain url where u: "config environ repository ''DB_URL'' = Inr url"
    using config_present [of environ "''DB_URL''" repository] by blast
  from h have "config environ repository ''DB_NAME'' = Inl (UndefinedValueError ''DB_NAME'')"
    by (simp add: config_absent)
  with u have "main_module environ repository
      = Inl (UndefinedValueError ''DB_NAME'', assign ''DB_URL'' (OStr url) module_start)"
    by (simp add: main_module_def run_append run_main_no_name)
  then show "\<exists>st. main_module environ repository = Inl (UndefinedValueError ''DB_NAME'', st) \<and> app st = None"
    by (simp add: module_start_def assign_def)
next
  assume h: "(environ ''DB_URL'' \<noteq> None \<or> repository ''DB_URL'' \<noteq> None)
        \<and> (environ ''DB_NAME'' \<noteq> None \<or> repository ''DB_NAME'' \<noteq> None)"
  then obtain url where u: "config environ repository ''DB_URL'' = Inr url"
    using config_present [of environ "''DB_URL''" repository] by blast
  from h obtain name where n: "config environ repository ''DB_NAME'' = Inr name"
    using config_present [of environ "''DB_NAME''" repository] by blast
  have "main_module environ repository
      = Inr (assign ''origins'' (OList [''http://localhost'', ''http://localhost:8080'',
               ''http://localhost:3000'', ''http://localhost:8000'']) (bootstrapped url name))"
    using u n by (simp add: main_module_def run_append run_main_statements reassign_origins_def)
  with u n show "\<exists>st a url name. main_module environ repository = Inr st
         \<and> app st = Some a \<and> routers a = [(''cars_router'', ''/cars'', [''cars''])]
         \<and> config environ repository ''DB_URL'' = Inr url
         \<and> config environ repository ''DB_NAME'' = Inr name
         \<and> (\<exists>r. globals st ''DB_URL'' = Some r \<and> deref st r = Some (OStr url))
         \<and> (\<exists>r. globals st ''DB_NAME'' = Some r \<and> deref st r = Some (OStr name))"
    by (simp add: assign_def bootstrapped_def deref_def)
qed

theorem missing_configuration_is_fatal_witness:
  "(\<exists>st. main_module Map.empty [''DB_NAME'' \<mapsto> ''cars''] = Inl (UndefinedValueError ''DB_URL'', st) \<and> app st = None)
   \<and> (\<exists>st. main_module [''DB_URL'' \<mapsto> ''mongodb://localhost''] Map.empty
          = Inl (UndefinedValueError ''DB_NAME'', st) \<and> app st = None)
   \<and> (\<exists>st a. main_module [''DB_URL'' \<mapsto> ''mongodb://localhost''] [''DB_NAME'' \<mapsto> ''cars''] = Inr st
          \<and> app st = Some a \<and> routers a = [(''cars_router'', ''/cars'', [''cars''])])"
proof -
  have 1: "\<exists>st. main_module Map.empty [''DB_NAME'' \<mapsto> ''cars''] = Inl (UndefinedValueError ''DB_URL'', st) \<and> app st = None"
    using missing_configuration_is_fatal [of Map.empty "[''DB_NAME'' \<mapsto> ''cars'']"] by simp
  have 2: "\<exists>st. main_module [''DB_URL'' \<mapsto> ''mongodb://localhost''] Map.empty
          = Inl (UndefinedValueError ''DB_NAME'', st) \<and> app st = None"
    using missing_configuration_is_fatal [of "[''DB_URL'' \<mapsto> ''mongodb://localhost'']" Map.empty] by simp
  have 3: "\<exists>st a. main_module [''DB_URL'' \<mapsto> ''mongodb://localhost''] [''DB_NAME'' \<mapsto> ''cars''] = Inr st
          \<and> app st = Some a \<and> routers a = [(''cars_router'', ''/cars'', [''cars''])]"
    using missing_configuration_is_fatal [of "[''DB_URL'' \<mapsto> ''mongodb://localhost'']" "[''DB_NAME'' \<mapsto> ''cars'']"]
    by auto
  from 1 2 3 show ?thesis by blast
qed



end
